theory Spec2Isabelle
  imports Main
begin

section \<open>The Universal Syntax Tree of Lea: data model\<close>

text \<open>
  The model follows \<^verbatim>\<open>src/models/ast_universal.py\<close>. Python strings are
  \<^typ>\<open>string\<close>; one \<^typ>\<open>char\<close> stands for one code point below 256.
\<close>

datatype NodeType =
    PROGRAM | MODULE
  | VARIABLE_DECLARATION | FUNCTION_DECLARATION | CLASS_DECLARATION
  | INTERFACE_DECLARATION | IMPORT_DECLARATION
  | LITERAL | IDENTIFIER | BINARY_EXPRESSION | UNARY_EXPRESSION
  | CALL_EXPRESSION | MEMBER_EXPRESSION | ASSIGNMENT_EXPRESSION
  | EXPRESSION_STATEMENT | BLOCK_STATEMENT | IF_STATEMENT | WHILE_STATEMENT
  | FOR_STATEMENT | RETURN_STATEMENT | BREAK_STATEMENT | CONTINUE_STATEMENT
  | PRIMITIVE_TYPE | ARRAY_TYPE | OBJECT_TYPE | FUNCTION_TYPE
  | COMMENT | ANNOTATION

fun NodeType_value :: "NodeType \<Rightarrow> string" where
  "NodeType_value PROGRAM = ''program''"
| "NodeType_value MODULE = ''module''"
| "NodeType_value VARIABLE_DECLARATION = ''variable_declaration''"
| "NodeType_value FUNCTION_DECLARATION = ''function_declaration''"
| "NodeType_value CLASS_DECLARATION = ''class_declaration''"
| "NodeType_value INTERFACE_DECLARATION = ''interface_declaration''"
| "NodeType_value IMPORT_DECLARATION = ''import_declaration''"
| "NodeType_value LITERAL = ''literal''"
| "NodeType_value IDENTIFIER = ''identifier''"
| "NodeType_value BINARY_EXPRESSION = ''binary_expression''"
| "NodeType_value UNARY_EXPRESSION = ''unary_expression''"
| "NodeType_value CALL_EXPRESSION = ''call_expression''"
| "NodeType_value MEMBER_EXPRESSION = ''member_expression''"
| "NodeType_value ASSIGNMENT_EXPRESSION = ''assignment_expression''"
| "NodeType_value EXPRESSION_STATEMENT = ''expression_statement''"
| "NodeType_value BLOCK_STATEMENT = ''block_statement''"
| "NodeType_value IF_STATEMENT = ''if_statement''"
| "NodeType_value WHILE_STATEMENT = ''while_statement''"
| "NodeType_value FOR_STATEMENT = ''for_statement''"
| "NodeType_value RETURN_STATEMENT = ''return_statement''"
| "NodeType_value BREAK_STATEMENT = ''break_statement''"
| "NodeType_value CONTINUE_STATEMENT = ''continue_statement''"
| "NodeType_value PRIMITIVE_TYPE = ''primitive_type''"
| "NodeType_value ARRAY_TYPE = ''array_type''"
| "NodeType_value OBJECT_TYPE = ''object_type''"
| "NodeType_value FUNCTION_TYPE = ''function_type''"
| "NodeType_value COMMENT = ''comment''"
| "NodeType_value ANNOTATION = ''annotation''"

text \<open>The members of the enumeration, in definition order.\<close>

definition NodeType_members :: "NodeType list" where
  "NodeType_members =
     [PROGRAM, MODULE, VARIABLE_DECLARATION, FUNCTION_DECLARATION, CLASS_DECLARATION,
      INTERFACE_DECLARATION, IMPORT_DECLARATION, LITERAL, IDENTIFIER, BINARY_EXPRESSION,
      UNARY_EXPRESSION, CALL_EXPRESSION, MEMBER_EXPRESSION, ASSIGNMENT_EXPRESSION,
      EXPRESSION_STATEMENT, BLOCK_STATEMENT, IF_STATEMENT, WHILE_STATEMENT, FOR_STATEMENT,
      RETURN_STATEMENT, BREAK_STATEMENT, CONTINUE_STATEMENT, PRIMITIVE_TYPE, ARRAY_TYPE,
      OBJECT_TYPE, FUNCTION_TYPE, COMMENT, ANNOTATION]"

text \<open>\<^verbatim>\<open>NodeType(s)\<close>: the member whose value is \<open>s\<close>; Python raises ValueError when
  there is none.\<close>

definition NodeType_of_value :: "string \<Rightarrow> NodeType option" where
  "NodeType_of_value s = find (\<lambda>t. NodeType_value t = s) NodeType_members"

datatype DataType =
  DT_STRING | DT_NUMBER | DT_INTEGER | DT_FLOAT | DT_BOOLEAN | DT_NULL | DT_UNDEFINED
  | DT_VOID | DT_ANY

fun DataType_value :: "DataType \<Rightarrow> string" where
  "DataType_value DT_STRING = ''string''"
| "DataType_value DT_NUMBER = ''number''"
| "DataType_value DT_INTEGER = ''integer''"
| "DataType_value DT_FLOAT = ''float''"
| "DataType_value DT_BOOLEAN = ''boolean''"
| "DataType_value DT_NULL = ''null''"
| "DataType_value DT_UNDEFINED = ''undefined''"
| "DataType_value DT_VOID = ''void''"
| "DataType_value DT_ANY = ''any''"

text \<open>
  Python values as they occur in attribute bags and in the dictionaries of the
  serialized form. A dictionary is an association list with string keys, in insertion
  order. \<open>PFloat s\<close> is the float that \<^verbatim>\<open>float(s)\<close> makes of the plain decimal text
  \<open>s\<close> (digits, then optionally a point and digits); \<open>POther s\<close> is a value of another
  class (complex, Ellipsis), named by its repr.
\<close>

datatype pyval =
    PNone
  | PBool bool
  | PInt int
  | PFloat string
  | PStr string
  | PBytes string
  | PList "pyval list"
  | PDict "(string \<times> pyval) list"
  | POther string

type_synonym pydict = "(string \<times> pyval) list"

text \<open>\<^verbatim>\<open>d[k] = v\<close>: an existing key keeps its place, a new key goes last.\<close>

fun dict_set :: "('k \<times> 'v) list \<Rightarrow> 'k \<Rightarrow> 'v \<Rightarrow> ('k \<times> 'v) list" where
  "dict_set [] k v = [(k, v)]"
| "dict_set ((k', v') # d) k v = (if k' = k then (k, v) # d else (k', v') # dict_set d k v)"

text \<open>\<^verbatim>\<open>d.get(k, default)\<close>\<close>

definition dict_get :: "pydict \<Rightarrow> string \<Rightarrow> pyval \<Rightarrow> pyval" where
  "dict_get d k dflt = (case map_of d k of None \<Rightarrow> dflt | Some v \<Rightarrow> v)"

text \<open>\<^verbatim>\<open>int(s)\<close> for a text of ASCII digits.\<close>

definition digit_value :: "char \<Rightarrow> nat" where
  "digit_value c = of_char c - 48"

definition int_of_digits :: "string \<Rightarrow> nat" where
  "int_of_digits s = fold (\<lambda>c n. 10 * n + digit_value c) s 0"

text \<open>
  Whether \<^verbatim>\<open>float(s)\<close> is zero, for a plain decimal text: the value \<open>N / 10^k\<close> rounds
  to zero exactly when it is at most half the smallest positive double, \<open>2^-1075\<close>.
\<close>

definition float_is_zero :: "string \<Rightarrow> bool" where
  "float_is_zero s =
     (let ip = takeWhile (\<lambda>c. c \<noteq> CHR ''.'') s;
          fp = drop 1 (dropWhile (\<lambda>c. c \<noteq> CHR ''.'') s)
      in int_of_digits (ip @ fp) * 2 ^ 1075 \<le> 10 ^ length fp)"

text \<open>Python truthiness, as tested by \<^verbatim>\<open>if x:\<close>.\<close>

fun truthy :: "pyval \<Rightarrow> bool" where
  "truthy PNone = False"
| "truthy (PBool b) = b"
| "truthy (PInt i) = (i \<noteq> 0)"
| "truthy (PFloat s) = (\<not> float_is_zero s)"
| "truthy (PStr s) = (s \<noteq> [])"
| "truthy (PBytes s) = (s \<noteq> [])"
| "truthy (PList xs) = (xs \<noteq> [])"
| "truthy (PDict d) = (d \<noteq> [])"
| "truthy (POther s) = True"

record SourceLocation =
  loc_line :: int
  loc_column :: int
  loc_file_path :: "string option"

record SourceRange =
  range_start :: SourceLocation
  range_end :: SourceLocation

text \<open>
  The dataclass \<^verbatim>\<open>ASTNode\<close>. Its fields \<^verbatim>\<open>id\<close> and \<^verbatim>\<open>type\<close> are \<open>node_id\<close> and
  \<open>node_type\<close> here. The field \<^verbatim>\<open>children\<close> is declared a list of nodes, but
  \<^verbatim>\<open>add_child\<close> appends whatever it is given, and one caller passes \<^verbatim>\<open>None\<close>: an
  entry of the list is a node or \<^verbatim>\<open>None\<close>.
\<close>

datatype ASTNode =
  ASTNode (node_id: string) (node_type: NodeType) (children: "ASTNode option list")
    (attributes: pydict) (source_range: "SourceRange option")
    (original_language: "string option")

text \<open>
  A tree as the data model declares it: every entry of every \<^verbatim>\<open>children\<close> list is a
  node.
\<close>

fun well_formed :: "ASTNode \<Rightarrow> bool" where
  "well_formed (ASTNode i t cs a sr l) =
     list_all (\<lambda>c. case c of None \<Rightarrow> False | Some n \<Rightarrow> well_formed n) cs"

text \<open>
  The exceptions that the modelled code raises. \<open>KeyError\<close> carries the missing key,
  \<open>ValueError\<close> the message, \<open>AttributeError\<close> the attribute that was looked up on
  \<^verbatim>\<open>None\<close>, and \<open>TypeError\<close> a short description in place of Python's message.
  \<open>OutsideModel\<close> is no exception of Python: it marks a dictionary entry that does
  not fit the declared type of the node field it is read into. Python checks no field
  type and builds a node holding the entry; the node type of the model has no such
  value.
\<close>

datatype error =
  KeyError string | ValueError string | TypeError string | AttributeError string
  | OutsideModel string

text \<open>\<^verbatim>\<open>str(e)\<close> for an exception, as an f-string prints it.\<close>

fun str_exception :: "error \<Rightarrow> string" where
  "str_exception (KeyError k) = [CHR 0x27] @ k @ [CHR 0x27]"
| "str_exception (ValueError msg) = msg"
| "str_exception (TypeError msg) = msg"
| "str_exception (AttributeError a) =
     [CHR 0x27] @ ''NoneType'' @ [CHR 0x27] @ '' object has no attribute '' @ [CHR 0x27] @ a
     @ [CHR 0x27]"
| "str_exception (OutsideModel msg) = msg"

text \<open>The decimal text of a natural number.\<close>

function show_nat :: "nat \<Rightarrow> string" where
  "show_nat n =
     (if n < 10 then [char_of (48 + n)] else show_nat (n div 10) @ [char_of (48 + n mod 10)])"
  by pat_completeness auto
termination
  by (relation "measure (\<lambda>n. n)") auto

text \<open>
  CPython converts a decimal text of more than 4300 digits to an integer, or an integer
  of more than 4300 digits to text, only by raising ValueError (the default of
  \<^verbatim>\<open>sys.set_int_max_str_digits\<close>).
\<close>

definition max_str_digits :: nat where
  "max_str_digits = 4300"

definition int_limit_message :: "nat \<Rightarrow> string" where
  "int_limit_message digits =
     ''Exceeds the limit (4300 digits) for integer string conversion: value has ''
     @ show_nat digits @ '' digits; use sys.set_int_max_str_digits() to increase the limit''"

definition bind_err :: "error + 'a \<Rightarrow> ('a \<Rightarrow> error + 'b) \<Rightarrow> error + 'b" where
  "bind_err m f = (case m of Inl e \<Rightarrow> Inl e | Inr x \<Rightarrow> f x)"

text \<open>Evaluating a list of computations in order; the first exception ends it.\<close>

fun sequence_err :: "(error + 'a) list \<Rightarrow> error + 'a list" where
  "sequence_err [] = Inr []"
| "sequence_err (m # ms) =
     (case m of Inl e \<Rightarrow> Inl e
      | Inr x \<Rightarrow> (case sequence_err ms of Inl e \<Rightarrow> Inl e | Inr xs \<Rightarrow> Inr (x # xs)))"

record UniversalSyntaxTree =
  root :: ASTNode
  metadata :: pydict
  version :: string

definition add_child :: "ASTNode \<Rightarrow> ASTNode option \<Rightarrow> ASTNode" where
  "add_child node child =
     ASTNode (node_id node) (node_type node) (children node @ [child]) (attributes node)
       (source_range node) (original_language node)"

definition set_attribute :: "ASTNode \<Rightarrow> string \<Rightarrow> pyval \<Rightarrow> ASTNode" where
  "set_attribute node key v =
     ASTNode (node_id node) (node_type node) (children node)
       (dict_set (attributes node) key v) (source_range node) (original_language node)"

definition get_attribute :: "ASTNode \<Rightarrow> string \<Rightarrow> pyval \<Rightarrow> pyval" where
  "get_attribute node key dflt = dict_get (attributes node) key dflt"

text \<open>The assignment \<^verbatim>\<open>node.source_range = sr\<close>.\<close>

definition assign_source_range :: "ASTNode \<Rightarrow> SourceRange option \<Rightarrow> ASTNode" where
  "assign_source_range node sr =
     ASTNode (node_id node) (node_type node) (children node) (attributes node) sr
       (original_language node)"

section \<open>Analysis utilities (\<^verbatim>\<open>src/routes/ast_api.py\<close>)\<close>

text \<open>
  \<^verbatim>\<open>count_nodes\<close> of \<^verbatim>\<open>_analyze_ust\<close> appends the node to the shared list
  \<^verbatim>\<open>all_nodes\<close> and then visits its children in order; the list is passed and
  returned here.
\<close>

fun count_nodes :: "ASTNode option \<Rightarrow> ASTNode list \<Rightarrow> error + ASTNode list" where
  "count_nodes None all_nodes = Inl (AttributeError ''children'')"
| "count_nodes (Some (ASTNode i t cs a sr l)) all_nodes =
     fold (\<lambda>child acc. bind_err acc (count_nodes child)) cs
       (Inr (all_nodes @ [ASTNode i t cs a sr l]))"

definition control_flow_nodes :: "NodeType list" where
  "control_flow_nodes = [IF_STATEMENT, WHILE_STATEMENT, FOR_STATEMENT, BINARY_EXPRESSION]"

text \<open>\<^verbatim>\<open>_estimate_cyclomatic_complexity(nodes)\<close>: the loop over \<^verbatim>\<open>nodes\<close>, starting
  from the base complexity 1.\<close>

definition estimate_cyclomatic_complexity :: "ASTNode list \<Rightarrow> int" where
  "estimate_cyclomatic_complexity nodes =
     fold (\<lambda>node complexity.
             if node_type node \<in> set control_flow_nodes then complexity + 1 else complexity)
          nodes 1"

text \<open>The entry \<^verbatim>\<open>cyclomatic_complexity\<close> that \<^verbatim>\<open>_analyze_ust\<close> computes for a tree.\<close>

definition cyclomatic_complexity :: "UniversalSyntaxTree \<Rightarrow> error + int" where
  "cyclomatic_complexity ust =
     bind_err (count_nodes (Some (root ust)) [])
       (\<lambda>all_nodes. Inr (estimate_cyclomatic_complexity all_nodes))"

text \<open>
  The specification's count: how many nodes of the tree, the root included, carry a
  type of the control-flow set.
\<close>

fun control_flow_count :: "ASTNode \<Rightarrow> int" where
  "control_flow_count (ASTNode i t cs a sr l) =
     (if t \<in> {IF_STATEMENT, WHILE_STATEMENT, FOR_STATEMENT, BINARY_EXPRESSION} then 1 else 0)
     + sum_list (map (\<lambda>c. case c of None \<Rightarrow> 0 | Some n \<Rightarrow> control_flow_count n) cs)"

text \<open>All nodes of a tree in pre-order (a node, then its children's subtrees in order).\<close>

fun preorder :: "ASTNode \<Rightarrow> ASTNode list" where
  "preorder (ASTNode i t cs a sr l) =
     ASTNode i t cs a sr l
     # concat (map (\<lambda>c. case c of None \<Rightarrow> [] | Some n \<Rightarrow> preorder n) cs)"

section \<open>Serialized form (\<^verbatim>\<open>to_dict\<close>, \<^verbatim>\<open>from_dict\<close>)\<close>

definition opt_str :: "string option \<Rightarrow> pyval" where
  "opt_str s = (case s of None \<Rightarrow> PNone | Some x \<Rightarrow> PStr x)"

definition location_to_dict :: "SourceLocation \<Rightarrow> pyval" where
  "location_to_dict loc =
     PDict [(''line'', PInt (loc_line loc)), (''column'', PInt (loc_column loc)),
            (''file_path'', opt_str (loc_file_path loc))]"

text \<open>
  \<^verbatim>\<open>to_dict\<close>. The call \<^verbatim>\<open>child.to_dict()\<close> on a child \<^verbatim>\<open>None\<close> raises
  AttributeError.
\<close>

fun to_dict :: "ASTNode \<Rightarrow> error + pyval" where
  "to_dict (ASTNode i t cs a sr l) =
     (case sequence_err
             (map (\<lambda>child. case child of
                               None \<Rightarrow> Inl (AttributeError ''to_dict'')
                             | Some c \<Rightarrow> to_dict c) cs) of
        Inl e \<Rightarrow> Inl e
      | Inr ds \<Rightarrow>
          Inr (PDict [(''id'', PStr i),
                      (''type'', PStr (NodeType_value t)),
                      (''children'', PList ds),
                      (''attributes'', PDict a),
                      (''source_range'',
                         (case sr of
                            None \<Rightarrow> PNone
                          | Some r \<Rightarrow> PDict [(''start'', location_to_dict (range_start r)),
                                               (''end'', location_to_dict (range_end r))])),
                      (''original_language'', opt_str l)]))"

fun subscript :: "pyval \<Rightarrow> string \<Rightarrow> error + pyval" where
  "subscript (PDict d) k = (case map_of d k of None \<Rightarrow> Inl (KeyError k) | Some v \<Rightarrow> Inr v)"
| "subscript v k = Inl (TypeError ''subscript'')"

fun get_method :: "pyval \<Rightarrow> string \<Rightarrow> pyval \<Rightarrow> error + pyval" where
  "get_method (PDict d) k dflt = Inr (dict_get d k dflt)"
| "get_method v k dflt = Inl (TypeError ''get'')"

text \<open>
  Reading a dictionary entry into a field of a declared type (\<^verbatim>\<open>str\<close>, \<^verbatim>\<open>int\<close>,
  \<^verbatim>\<open>Optional[str]\<close>, \<^verbatim>\<open>Dict\<close>). An entry of another type is \<open>OutsideModel\<close>.
\<close>

fun as_str :: "pyval \<Rightarrow> error + string" where
  "as_str (PStr s) = Inr s"
| "as_str v = Inl (OutsideModel ''str'')"

fun as_int :: "pyval \<Rightarrow> error + int" where
  "as_int (PInt i) = Inr i"
| "as_int v = Inl (OutsideModel ''int'')"

fun as_opt_str :: "pyval \<Rightarrow> error + string option" where
  "as_opt_str PNone = Inr None"
| "as_opt_str (PStr s) = Inr (Some s)"
| "as_opt_str v = Inl (OutsideModel ''Optional[str]'')"

fun as_dict :: "pyval \<Rightarrow> error + pydict" where
  "as_dict (PDict d) = Inr d"
| "as_dict v = Inl (OutsideModel ''Dict'')"

fun NodeType_call :: "pyval \<Rightarrow> error + NodeType" where
  "NodeType_call (PStr s) =
     (case NodeType_of_value s of None \<Rightarrow> Inl (ValueError s) | Some t \<Rightarrow> Inr t)"
| "NodeType_call v = Inl (ValueError ''NodeType'')"

definition location_from_dict :: "pyval \<Rightarrow> error + SourceLocation" where
  "location_from_dict loc =
     bind_err (bind_err (subscript loc ''line'') as_int) (\<lambda>ln.
     bind_err (bind_err (subscript loc ''column'') as_int) (\<lambda>col.
     bind_err (bind_err (get_method loc ''file_path'' PNone) as_opt_str) (\<lambda>fp.
     Inr \<lparr>loc_line = ln, loc_column = col, loc_file_path = fp\<rparr>)))"

definition source_range_from_dict :: "pydict \<Rightarrow> error + SourceRange option" where
  "source_range_from_dict data =
     (if truthy (dict_get data ''source_range'' PNone) then
        (let sr = dict_get data ''source_range'' PNone in
         bind_err (bind_err (subscript sr ''start'') location_from_dict) (\<lambda>s.
         bind_err (bind_err (subscript sr ''end'') location_from_dict) (\<lambda>e.
         Inr (Some \<lparr>range_start = s, range_end = e\<rparr>))))
      else Inr None)"

text \<open>
  The items that the comprehension over \<^verbatim>\<open>data.get('children', [])\<close> visits. A
  non-empty dictionary, string or bytes value yields keys, characters or integers, on
  which \<^verbatim>\<open>from_dict\<close> raises TypeError at \<^verbatim>\<open>data['id']\<close>; a value that cannot be
  iterated raises TypeError at once.
\<close>

fun iter_children :: "pyval \<Rightarrow> error + pyval list" where
  "iter_children (PList cs) = Inr cs"
| "iter_children (PDict d) = (if d = [] then Inr [] else Inl (TypeError ''child''))"
| "iter_children (PStr s) = (if s = [] then Inr [] else Inl (TypeError ''child''))"
| "iter_children (PBytes s) = (if s = [] then Inr [] else Inl (TypeError ''child''))"
| "iter_children v = Inl (TypeError ''iter'')"


definition node_fields ::
  "pydict \<Rightarrow> error + (string \<times> NodeType \<times> pydict \<times> string option \<times> SourceRange option \<times> pyval list)"
where
  "node_fields data =
     bind_err (bind_err (subscript (PDict data) ''id'') as_str) (\<lambda>i.
     bind_err (bind_err (subscript (PDict data) ''type'') NodeType_call) (\<lambda>t.
     bind_err (as_dict (dict_get data ''attributes'' (PDict []))) (\<lambda>a.
     bind_err (as_opt_str (dict_get data ''original_language'' PNone)) (\<lambda>l.
     bind_err (source_range_from_dict data) (\<lambda>sr.
     bind_err (iter_children (dict_get data ''children'' (PList []))) (\<lambda>cs.
     Inr (i, t, a, l, sr, cs)))))))"

function from_dict :: "pyval \<Rightarrow> error + ASTNode" where
  "from_dict (PDict data) =
     (case node_fields data of
        Inl e \<Rightarrow> Inl e
      | Inr (i, t, a, l, sr, cs) \<Rightarrow>
          (case sequence_err (map from_dict cs) of
             Inl e \<Rightarrow> Inl e
           | Inr nodes \<Rightarrow> Inr (ASTNode i t (map Some nodes) a sr l)))"
| "from_dict PNone = Inl (TypeError ''subscript'')"
| "from_dict (PBool b) = Inl (TypeError ''subscript'')"
| "from_dict (PInt n) = Inl (TypeError ''subscript'')"
| "from_dict (PFloat s) = Inl (TypeError ''subscript'')"
| "from_dict (PStr s) = Inl (TypeError ''subscript'')"
| "from_dict (PBytes s) = Inl (TypeError ''subscript'')"
| "from_dict (PList xs) = Inl (TypeError ''subscript'')"
| "from_dict (POther s) = Inl (TypeError ''subscript'')"
  by pat_completeness auto
termination
proof (relation "measure size")
  show "wf (measure size)" by simp
next
  fix data :: pydict and b i y t ya a yb l yc sr cs xa
  assume "node_fields data = Inr b" "(i, y) = b" "(t, ya) = y" "(a, yb) = ya"
    "(l, yc) = yb" "(sr, cs) = yc"
  then have nf: "node_fields data = Inr (i, t, a, l, sr, cs)" by auto
  assume x: "xa \<in> set cs"
  have lookup: "map_of d k = Some v \<Longrightarrow> size v < Suc (size_list (size_prod (\<lambda>x. 0) size) d)"
    for d :: pydict and k v
    by (induction d) (auto split: if_splits)
  have elem: "iter_children v = Inr cs \<Longrightarrow> size xa < size v" for v
    using x by (cases v) (auto split: if_splits simp: less_Suc_eq_le size_list_estimation')
  from nf have c: "iter_children (dict_get data ''children'' (PList [])) = Inr cs"
    by (auto simp: node_fields_def bind_err_def split: sum.splits)
  have "size xa < Suc (size_list (size_prod (\<lambda>x. 0) size) data)"
  proof (cases "map_of data ''children''")
    case None
    with c x show ?thesis by (simp add: dict_get_def)
  next
    case (Some v)
    with c have "iter_children v = Inr cs" by (simp add: dict_get_def)
    from elem[OF this] lookup[OF Some] show ?thesis by simp
  qed
  then show "(xa, PDict data) \<in> measure size" by simp
qed

text \<open>
  \<^verbatim>\<open>json.dumps\<close> of the standard library. It walks the value in order and raises
  TypeError at the first value that JSON cannot encode (bytes, complex, Ellipsis) and
  ValueError at the first integer of more than 4300 digits. The text that it writes and
  that \<^verbatim>\<open>json.loads\<close> reads back is identified with the value it encodes.
\<close>

fun first_error :: "error option list \<Rightarrow> error option" where
  "first_error [] = None"
| "first_error (None # es) = first_error es"
| "first_error (Some e # es) = Some e"

fun json_error :: "pyval \<Rightarrow> error option" where
  "json_error PNone = None"
| "json_error (PBool b) = None"
| "json_error (PInt i) =
     (if 10 ^ max_str_digits \<le> \<bar>i\<bar>
      then Some (ValueError ''Exceeds the limit (4300 digits) for integer string conversion; use sys.set_int_max_str_digits() to increase the limit'')
      else None)"
| "json_error (PFloat s) = None"
| "json_error (PStr s) = None"
| "json_error (PBytes s) = Some (TypeError ''Object of type bytes is not JSON serializable'')"
| "json_error (PList xs) = first_error (map json_error xs)"
| "json_error (PDict d) = first_error (map (\<lambda>kv. json_error (snd kv)) d)"
| "json_error (POther s) = Some (TypeError ''Object is not JSON serializable'')"

definition json_dumps :: "pyval \<Rightarrow> error + pyval" where
  "json_dumps v = (case json_error v of Some e \<Rightarrow> Inl e | None \<Rightarrow> Inr v)"

text \<open>
  \<^verbatim>\<open>to_json\<close> builds the dictionary, which calls \<^verbatim>\<open>to_dict\<close> on the root, and hands
  it to \<^verbatim>\<open>json.dumps\<close>; \<^verbatim>\<open>from_json\<close> reads the value that \<^verbatim>\<open>json.loads\<close> returns.
\<close>

definition to_json :: "UniversalSyntaxTree \<Rightarrow> error + pyval" where
  "to_json ust =
     bind_err (to_dict (root ust)) (\<lambda>r.
     json_dumps (PDict [(''version'', PStr (version ust)), (''metadata'', PDict (metadata ust)),
                        (''root'', r)]))"

definition from_json :: "pyval \<Rightarrow> error + UniversalSyntaxTree" where
  "from_json data =
     bind_err (bind_err (subscript data ''root'') from_dict) (\<lambda>r.
     bind_err (bind_err (get_method data ''metadata'' (PDict [])) as_dict) (\<lambda>md.
     bind_err (bind_err (get_method data ''version'' (PStr ''1.0'')) as_str) (\<lambda>ver.
     Inr \<lparr>root = r, metadata = md, version = ver\<rparr>)))"

text \<open>A small tree: a program holding an if-statement over a binary expression, and a
  literal.\<close>

definition example_tree :: UniversalSyntaxTree where
  "example_tree =
     \<lparr>root = ASTNode ''n0'' PROGRAM
               [Some (ASTNode ''n1'' IF_STATEMENT
                        [Some (ASTNode ''n2'' BINARY_EXPRESSION [] [] None None)] [] None None),
                Some (ASTNode ''n3'' LITERAL [] [(''value'', PInt 5)] None None)]
               [] None None,
      metadata = [], version = ''1.0''\<rparr>"

section \<open>Regular expressions as Python's \<^verbatim>\<open>re\<close> matches them\<close>

text \<open>
  The character classes of \<^verbatim>\<open>re\<close> on text (Unicode matching, the default), for code
  points below 256: \<^verbatim>\<open>\d\<close>, \<^verbatim>\<open>\s\<close> and \<^verbatim>\<open>\w\<close>.
\<close>

definition is_digit :: "char \<Rightarrow> bool" where
  "is_digit c = (let n = of_char c :: nat in 48 \<le> n \<and> n \<le> 57)"

definition is_space :: "char \<Rightarrow> bool" where
  "is_space c = ((of_char c :: nat) \<in> set [9, 10, 11, 12, 13, 28, 29, 30, 31, 32, 133, 160])"

definition is_word :: "char \<Rightarrow> bool" where
  "is_word c =
     (let n = of_char c :: nat in
        (48 \<le> n \<and> n \<le> 57) \<or> (65 \<le> n \<and> n \<le> 90) \<or> n = 95 \<or> (97 \<le> n \<and> n \<le> 122)
        \<or> n \<in> set [170, 178, 179, 181, 185, 186, 188, 189, 190]
        \<or> (192 \<le> n \<and> n \<le> 214) \<or> (216 \<le> n \<and> n \<le> 246) \<or> 248 \<le> n)"

text \<open>\<^verbatim>\<open>\b\<close> at a position of the whole line: exactly one side is a word character.\<close>

definition word_boundary :: "string \<Rightarrow> nat \<Rightarrow> bool" where
  "word_boundary line pos =
     ((0 < pos \<and> pos \<le> length line \<and> is_word (line ! (pos - 1)))
      \<noteq> (pos < length line \<and> is_word (line ! pos)))"

datatype regex =
    Lit string
  | Dot
  | CharSet "char \<Rightarrow> bool"
  | Seq regex regex
  | Alt regex regex
  | Star regex
  | LazyStar regex
  | Opt regex
  | WordBoundary

text \<open>\<^verbatim>\<open>r+\<close> is \<^verbatim>\<open>r\<close> followed by \<^verbatim>\<open>r*\<close>.\<close>

definition Plus :: "regex \<Rightarrow> regex" where
  "Plus r = Seq r (Star r)"

text \<open>
  The backtracking matcher: \<open>ends r line pos\<close> lists, in the order in which \<^verbatim>\<open>re\<close>
  tries them, the positions where a match of \<open>r\<close> that starts at \<open>pos\<close> can end. An
  alternation tries its left branch first, a greedy repetition one more round before
  stopping, a lazy one stops first. A repetition goes on only after a round that
  consumed text.
\<close>

function ends :: "regex \<Rightarrow> string \<Rightarrow> nat \<Rightarrow> nat list" where
  "ends (Lit s) line pos = (if take (length s) (drop pos line) = s then [pos + length s] else [])"
| "ends Dot line pos =
     (if pos < length line \<and> line ! pos \<noteq> CHR 0x0A then [pos + 1] else [])"
| "ends (CharSet P) line pos = (if pos < length line \<and> P (line ! pos) then [pos + 1] else [])"
| "ends (Seq a b) line pos = concat (map (ends b line) (ends a line pos))"
| "ends (Alt a b) line pos = ends a line pos @ ends b line pos"
| "ends (Star a) line pos =
     concat (map (\<lambda>p. if pos < p \<and> p \<le> length line then ends (Star a) line p else [])
                 (ends a line pos)) @ [pos]"
| "ends (LazyStar a) line pos =
     pos # concat (map (\<lambda>p. if pos < p \<and> p \<le> length line then ends (LazyStar a) line p else [])
                       (ends a line pos))"
| "ends (Opt a) line pos = ends a line pos @ [pos]"
| "ends WordBoundary line pos = (if word_boundary line pos then [pos] else [])"
  by pat_completeness auto
termination
  by (relation "measures [\<lambda>(r, line, pos). size r, \<lambda>(r, line, pos). length line - pos]") auto

text \<open>\<^verbatim>\<open>pattern.match(line, pos)\<close>: the first way to match, if there is one; the result
  is \<^verbatim>\<open>match.end()\<close>.\<close>

definition regex_match :: "regex \<Rightarrow> string \<Rightarrow> nat \<Rightarrow> nat option" where
  "regex_match r line pos = (case ends r line pos of [] \<Rightarrow> None | e # es \<Rightarrow> Some e)"

section \<open>The JavaScript tokenizer (\<^verbatim>\<open>src/parsers/javascript_parser.py\<close>)\<close>

datatype Token =
  Token (tok_type: string) (tok_value: string) (tok_line: int) (tok_column: int)

text \<open>\<^verbatim>\<open>\bword\b\<close>\<close>

definition keyword :: "string \<Rightarrow> regex" where
  "keyword w = Seq WordBoundary (Seq (Lit w) WordBoundary)"

text \<open>\<^verbatim>\<open>q(?:[^q\\]|\\.)*q\<close> for a quote character \<open>q\<close>\<close>

definition quoted :: "char \<Rightarrow> regex" where
  "quoted q =
     Seq (Lit [q])
       (Seq (Star (Alt (CharSet (\<lambda>c. c \<noteq> q \<and> c \<noteq> CHR 0x5C)) (Seq (Lit [CHR 0x5C]) Dot)))
            (Lit [q]))"

definition token_patterns :: "(string \<times> regex) list" where
  "token_patterns =
     [(''COMMENT_SINGLE'', Seq (Lit ''//'') (Star Dot)),
      (''COMMENT_MULTI'',
         Seq (Lit ''/*'') (Seq (LazyStar (CharSet (\<lambda>c. is_space c \<or> \<not> is_space c))) (Lit ''*/''))),
      (''STRING_DOUBLE'', quoted (CHR 0x22)),
      (''STRING_SINGLE'', quoted (CHR 0x27)),
      (''STRING_TEMPLATE'', quoted (CHR 0x60)),
      (''NUMBER'', Seq (Plus (CharSet is_digit)) (Seq (Opt (Lit ''.'')) (Star (CharSet is_digit)))),
      (''FUNCTION'', keyword ''function''),
      (''CONST'', keyword ''const''),
      (''LET'', keyword ''let''),
      (''VAR'', keyword ''var''),
      (''IF'', keyword ''if''),
      (''ELSE'', keyword ''else''),
      (''FOR'', keyword ''for''),
      (''WHILE'', keyword ''while''),
      (''RETURN'', keyword ''return''),
      (''BREAK'', keyword ''break''),
      (''CONTINUE'', keyword ''continue''),
      (''CLASS'', keyword ''class''),
      (''IMPORT'', keyword ''import''),
      (''EXPORT'', keyword ''export''),
      (''FROM'', keyword ''from''),
      (''TRUE'', keyword ''true''),
      (''FALSE'', keyword ''false''),
      (''NULL'', keyword ''null''),
      (''UNDEFINED'', keyword ''undefined''),
      (''ARROW'', Lit ''=>''),
      (''ASSIGN'', Lit ''=''),
      (''PLUS_ASSIGN'', Lit ''+=''),
      (''MINUS_ASSIGN'', Lit ''-=''),
      (''MULTIPLY_ASSIGN'', Lit ''*=''),
      (''DIVIDE_ASSIGN'', Lit ''/=''),
      (''EQUALITY'', Alt (Lit ''==='') (Lit ''=='')),
      (''INEQUALITY'', Alt (Lit ''!=='') (Lit ''!='')),
      (''LESS_EQUAL'', Lit ''<=''),
      (''GREATER_EQUAL'', Lit ''>=''),
      (''LESS'', Lit ''<''),
      (''GREATER'', Lit ''>''),
      (''PLUS'', Lit ''+''),
      (''MINUS'', Lit ''-''),
      (''MULTIPLY'', Lit ''*''),
      (''DIVIDE'', Lit ''/''),
      (''MODULO'', Lit ''%''),
      (''AND'', Lit ''&&''),
      (''OR'', Lit ''||''),
      (''NOT'', Lit ''!''),
      (''SEMICOLON'', Lit '';''),
      (''COMMA'', Lit '',''),
      (''DOT'', Lit ''.''),
      (''LPAREN'', Lit ''(''),
      (''RPAREN'', Lit '')''),
      (''LBRACE'', Lit ''{''),
      (''RBRACE'', Lit ''}''),
      (''LBRACKET'', Lit ''[''),
      (''RBRACKET'', Lit '']''),
      (''IDENTIFIER'',
         Seq (CharSet (\<lambda>c. c \<in> set ''abcdefghijklmnopqrstuvwxyzABCDEFGHIJKLMNOPQRSTUVWXYZ_$''))
             (Star (CharSet (\<lambda>c. c \<in> set
                ''abcdefghijklmnopqrstuvwxyzABCDEFGHIJKLMNOPQRSTUVWXYZ0123456789_$'')))),
      (''WHITESPACE'', Plus (CharSet is_space)),
      (''NEWLINE'', Lit [CHR 0x0A])]"

text \<open>The inner \<^verbatim>\<open>for\<close> loop of \<^verbatim>\<open>_tokenize\<close>: the first pattern of the list that
  matches at the column, with the end of its match.\<close>

fun first_match :: "(string \<times> regex) list \<Rightarrow> string \<Rightarrow> nat \<Rightarrow> (string \<times> nat) option" where
  "first_match [] line column = None"
| "first_match ((token_type, pattern) # rest) line column =
     (case regex_match pattern line column of
        Some e \<Rightarrow> Some (token_type, e)
      | None \<Rightarrow> first_match rest line column)"

text \<open>
  One round of the \<^verbatim>\<open>while\<close> loop at a column: the tokens it appends (one or none)
  and the next column.
\<close>

definition scan_step :: "int \<Rightarrow> string \<Rightarrow> nat \<Rightarrow> Token list \<times> nat" where
  "scan_step line_num line column =
     (case first_match token_patterns line column of
        Some (token_type, e) \<Rightarrow>
          (if token_type \<notin> set [''WHITESPACE'', ''COMMENT_SINGLE'', ''COMMENT_MULTI'']
           then [Token token_type (take (e - column) (drop column line)) line_num (int column)]
           else [],
           e)
      | None \<Rightarrow> ([], column + 1))"

text \<open>The \<^verbatim>\<open>while column < len(line)\<close> loop. The source gives no bound for it: a value
  \<open>None\<close> stands for a loop that does not end.\<close>

partial_function (option) scan_line ::
  "int \<Rightarrow> string \<Rightarrow> nat \<Rightarrow> Token list \<Rightarrow> Token list option" where
  "scan_line line_num line column tokens =
     (if column < length line then
        (let step = scan_step line_num line column
         in scan_line line_num line (snd step) (tokens @ fst step))
      else Some tokens)"

declare scan_line.simps [code]

text \<open>\<^verbatim>\<open>source_code.split('\n')\<close>\<close>

fun split_lines :: "string \<Rightarrow> string list" where
  "split_lines [] = [[]]"
| "split_lines (c # cs) =
     (if c = CHR 0x0A then [] # split_lines cs
      else (case split_lines cs of [] \<Rightarrow> [[c]] | l # ls \<Rightarrow> (c # l) # ls))"

text \<open>The loop over \<^verbatim>\<open>enumerate(lines, 1)\<close>.\<close>

fun tokenize_lines :: "int \<Rightarrow> string list \<Rightarrow> Token list \<Rightarrow> Token list option" where
  "tokenize_lines line_num [] tokens = Some tokens"
| "tokenize_lines line_num (line # lines) tokens =
     (case scan_line line_num line 0 tokens of
        None \<Rightarrow> None
      | Some tokens' \<Rightarrow> tokenize_lines (line_num + 1) lines tokens')"

definition tokenize :: "string \<Rightarrow> Token list option" where
  "tokenize source_code = tokenize_lines 1 (split_lines source_code) []"

section \<open>The JavaScript statement parser\<close>

text \<open>
  A node made without an \<^verbatim>\<open>id\<close> argument takes \<^verbatim>\<open>str(uuid.uuid4())\<close>. The
  random source is the sequence \<open>ids\<close> of the values that \<^verbatim>\<open>uuid4\<close> returns during
  the run, and every function that makes nodes takes the number \<open>n\<close> of values drawn
  so far and returns the new number.
\<close>

definition new_node :: "(nat \<Rightarrow> string) \<Rightarrow> nat \<Rightarrow> NodeType \<Rightarrow> ASTNode" where
  "new_node ids n t = ASTNode (ids n) t [] [] None (Some ''javascript'')"

text \<open>\<^verbatim>\<open>_set_source_range\<close>\<close>

definition set_source_range ::
  "ASTNode \<Rightarrow> Token \<Rightarrow> Token \<Rightarrow> string option \<Rightarrow> ASTNode" where
  "set_source_range node start_token end_token file_path =
     assign_source_range node
       (Some \<lparr>range_start =
                 \<lparr>loc_line = tok_line start_token, loc_column = tok_column start_token,
                  loc_file_path = file_path\<rparr>,
               range_end =
                 \<lparr>loc_line = tok_line end_token,
                  loc_column = tok_column end_token + int (length (tok_value end_token)),
                  loc_file_path = file_path\<rparr>\<rparr>)"

text \<open>The token \<^verbatim>\<open>tokens[min(i-1, len(tokens)-1)]\<close> that closes a statement.\<close>

definition last_token :: "Token list \<Rightarrow> nat \<Rightarrow> Token" where
  "last_token tokens i = tokens ! (min (i - 1) (length tokens - 1))"

text \<open>
  \<^verbatim>\<open>_parse_expression\<close>: the node or \<^verbatim>\<open>None\<close>, the number of tokens consumed, and
  the number of ids drawn. \<^verbatim>\<open>int(token.value)\<close> raises ValueError on a number of
  more than 4300 digits.
\<close>

definition parse_expression ::
  "(nat \<Rightarrow> string) \<Rightarrow> nat \<Rightarrow> Token list \<Rightarrow> nat \<Rightarrow> string option
     \<Rightarrow> error + ((ASTNode option \<times> nat) \<times> nat)" where
  "parse_expression ids n tokens start file_path =
     (if start \<ge> length tokens then Inr ((None, 0), n)
      else
        let token = tokens ! start in
        if tok_type token \<in> set [''STRING_DOUBLE'', ''STRING_SINGLE'', ''STRING_TEMPLATE''] then
          let node = new_node ids n LITERAL;
              node = set_attribute node ''value'' (PStr (butlast (tl (tok_value token))));
              node = set_attribute node ''data_type'' (PStr (DataType_value DT_STRING));
              node = set_source_range node token token file_path
          in Inr ((Some node, 1), n + 1)
        else if tok_type token = ''NUMBER'' then
          if CHR ''.'' \<notin> set (tok_value token) \<and> max_str_digits < length (tok_value token)
          then Inl (ValueError (int_limit_message (length (tok_value token))))
          else
            let node = new_node ids n LITERAL;
                v = (if CHR ''.'' \<in> set (tok_value token) then PFloat (tok_value token)
                     else PInt (int (int_of_digits (tok_value token))));
                node = set_attribute node ''value'' v;
                node = set_attribute node ''data_type''
                         (PStr (if CHR ''.'' \<in> set (tok_value token) then DataType_value DT_FLOAT
                                else DataType_value DT_INTEGER));
                node = set_source_range node token token file_path
            in Inr ((Some node, 1), n + 1)
        else if tok_type token \<in> set [''TRUE'', ''FALSE''] then
          let node = new_node ids n LITERAL;
              node = set_attribute node ''value'' (PBool (tok_value token = ''true''));
              node = set_attribute node ''data_type'' (PStr (DataType_value DT_BOOLEAN));
              node = set_source_range node token token file_path
          in Inr ((Some node, 1), n + 1)
        else if tok_type token = ''NULL'' then
          let node = new_node ids n LITERAL;
              node = set_attribute node ''value'' PNone;
              node = set_attribute node ''data_type'' (PStr (DataType_value DT_NULL));
              node = set_source_range node token token file_path
          in Inr ((Some node, 1), n + 1)
        else if tok_type token = ''UNDEFINED'' then
          let node = new_node ids n LITERAL;
              node = set_attribute node ''value'' PNone;
              node = set_attribute node ''data_type'' (PStr (DataType_value DT_UNDEFINED));
              node = set_source_range node token token file_path
          in Inr ((Some node, 1), n + 1)
        else if tok_type token = ''IDENTIFIER'' then
          let node = new_node ids n IDENTIFIER;
              node = set_attribute node ''name'' (PStr (tok_value token));
              node = set_source_range node token token file_path
          in Inr ((Some node, 1), n + 1)
        else Inr ((None, 1), n))"

text \<open>The loop \<^verbatim>\<open>while i < len(tokens) and tokens[i].type != t: i += 1\<close>.\<close>

function skip_until :: "Token list \<Rightarrow> string \<Rightarrow> nat \<Rightarrow> nat" where
  "skip_until tokens t i =
     (if i < length tokens \<and> tok_type (tokens ! i) \<noteq> t then skip_until tokens t (i + 1) else i)"
  by pat_completeness auto
termination
  by (relation "measure (\<lambda>(tokens, t, i). length tokens - i)") auto

text \<open>The parameter loop of \<^verbatim>\<open>_parse_function_declaration\<close>.\<close>

function collect_parameters :: "Token list \<Rightarrow> nat \<Rightarrow> string list \<Rightarrow> nat \<times> string list" where
  "collect_parameters tokens i parameters =
     (if i < length tokens \<and> tok_type (tokens ! i) \<noteq> ''RPAREN'' then
        collect_parameters tokens (i + 1)
          (if tok_type (tokens ! i) = ''IDENTIFIER'' then parameters @ [tok_value (tokens ! i)]
           else parameters)
      else (i, parameters))"
  by pat_completeness auto
termination
  by (relation "measure (\<lambda>(tokens, i, parameters). length tokens - i)") auto

text \<open>The brace-matching loop of \<^verbatim>\<open>_parse_function_declaration\<close>.\<close>

function match_braces :: "Token list \<Rightarrow> nat \<Rightarrow> int \<Rightarrow> nat" where
  "match_braces tokens i brace_count =
     (if i < length tokens \<and> brace_count > 0 then
        match_braces tokens (i + 1)
          (if tok_type (tokens ! i) = ''LBRACE'' then brace_count + 1
           else if tok_type (tokens ! i) = ''RBRACE'' then brace_count - 1
           else brace_count)
      else i)"
  by pat_completeness auto
termination
  by (relation "measure (\<lambda>(tokens, i, brace_count). length tokens - i)") auto

text \<open>
  The statement handlers. Each returns the node, the number of tokens consumed and the
  number of ids drawn; the handlers that call \<^verbatim>\<open>_parse_expression\<close> pass its
  exception on.
\<close>

definition parse_function_declaration ::
  "(nat \<Rightarrow> string) \<Rightarrow> nat \<Rightarrow> Token list \<Rightarrow> nat \<Rightarrow> string option
     \<Rightarrow> (ASTNode option \<times> nat) \<times> nat" where
  "parse_function_declaration ids n tokens start file_path =
     (let node = new_node ids n FUNCTION_DECLARATION;
          i = start + 1;
          (node, i) =
            (if i < length tokens \<and> tok_type (tokens ! i) = ''IDENTIFIER''
             then (set_attribute node ''name'' (PStr (tok_value (tokens ! i))), i + 1)
             else (node, i));
          (node, i) =
            (if i < length tokens \<and> tok_type (tokens ! i) = ''LPAREN'' then
               let (i, parameters) = collect_parameters tokens (i + 1) [];
                   node = set_attribute node ''parameters'' (PList (map PStr parameters))
               in (node, if i < length tokens \<and> tok_type (tokens ! i) = ''RPAREN'' then i + 1 else i)
             else (node, i));
          (node, i, n') =
            (if i < length tokens \<and> tok_type (tokens ! i) = ''LBRACE'' then
               let i = match_braces tokens (i + 1) 1;
                   body_node = new_node ids (n + 1) BLOCK_STATEMENT
               in (add_child node (Some body_node), i, n + 2)
             else (node, i, n + 1));
          node = set_source_range node (tokens ! start) (last_token tokens i) file_path
      in ((Some node, i - start), n'))"

definition parse_variable_declaration ::
  "(nat \<Rightarrow> string) \<Rightarrow> nat \<Rightarrow> Token list \<Rightarrow> nat \<Rightarrow> string option
     \<Rightarrow> error + ((ASTNode option \<times> nat) \<times> nat)" where
  "parse_variable_declaration ids n tokens start file_path =
     (let node = new_node ids n VARIABLE_DECLARATION;
          node = set_attribute node ''kind'' (PStr (tok_value (tokens ! start)));
          i = start + 1;
          (node, i) =
            (if i < length tokens \<and> tok_type (tokens ! i) = ''IDENTIFIER''
             then (set_attribute node ''name'' (PStr (tok_value (tokens ! i))), i + 1)
             else (node, i))
      in bind_err
           (if i < length tokens \<and> tok_type (tokens ! i) = ''ASSIGN'' then
              let i = i + 1 in
              if i < length tokens then
                bind_err (parse_expression ids (n + 1) tokens i file_path)
                  (\<lambda>(value_node, n').
                     Inr (add_child node (fst value_node), i + snd value_node, n'))
              else Inr (node, i, n + 1)
            else Inr (node, i, n + 1))
           (\<lambda>(node, i, n').
              let i = (if i < length tokens \<and> tok_type (tokens ! i) = ''SEMICOLON''
                       then i + 1 else i);
                  node = set_source_range node (tokens ! start) (last_token tokens i) file_path
              in Inr ((Some node, i - start), n')))"

text \<open>\<^verbatim>\<open>_parse_if_statement\<close>, \<^verbatim>\<open>_parse_for_statement\<close> and \<^verbatim>\<open>_parse_while_statement\<close>
  have one body, up to the node type.\<close>

definition parse_skip_to_rbrace ::
  "NodeType \<Rightarrow> (nat \<Rightarrow> string) \<Rightarrow> nat \<Rightarrow> Token list \<Rightarrow> nat \<Rightarrow> string option
     \<Rightarrow> (ASTNode option \<times> nat) \<times> nat" where
  "parse_skip_to_rbrace t ids n tokens start file_path =
     (let node = new_node ids n t;
          i = skip_until tokens ''RBRACE'' (start + 1);
          i = (if i < length tokens then i + 1 else i);
          node = set_source_range node (tokens ! start) (last_token tokens i) file_path
      in ((Some node, i - start), n + 1))"

definition parse_if_statement where
  "parse_if_statement = parse_skip_to_rbrace IF_STATEMENT"

definition parse_for_statement where
  "parse_for_statement = parse_skip_to_rbrace FOR_STATEMENT"

definition parse_while_statement where
  "parse_while_statement = parse_skip_to_rbrace WHILE_STATEMENT"

definition parse_return_statement ::
  "(nat \<Rightarrow> string) \<Rightarrow> nat \<Rightarrow> Token list \<Rightarrow> nat \<Rightarrow> string option
     \<Rightarrow> error + ((ASTNode option \<times> nat) \<times> nat)" where
  "parse_return_statement ids n tokens start file_path =
     (let node = new_node ids n RETURN_STATEMENT;
          i = start + 1
      in bind_err
           (if i < length tokens \<and> tok_type (tokens ! i) \<noteq> ''SEMICOLON'' then
              bind_err (parse_expression ids (n + 1) tokens i file_path)
                (\<lambda>((expr, consumed), n').
                   case expr of
                     Some e \<Rightarrow> Inr (add_child node (Some e), i + consumed, n')
                   | None \<Rightarrow> Inr (node, i, n'))
            else Inr (node, i, n + 1))
           (\<lambda>(node, i, n').
              let i = (if i < length tokens \<and> tok_type (tokens ! i) = ''SEMICOLON''
                       then i + 1 else i);
                  node = set_source_range node (tokens ! start) (last_token tokens i) file_path
              in Inr ((Some node, i - start), n')))"

text \<open>\<^verbatim>\<open>_parse_break_statement\<close> and \<^verbatim>\<open>_parse_continue_statement\<close>\<close>

definition parse_jump_statement ::
  "NodeType \<Rightarrow> (nat \<Rightarrow> string) \<Rightarrow> nat \<Rightarrow> Token list \<Rightarrow> nat \<Rightarrow> string option
     \<Rightarrow> (ASTNode option \<times> nat) \<times> nat" where
  "parse_jump_statement t ids n tokens start file_path =
     (let node = new_node ids n t;
          i = start + 1;
          i = (if i < length tokens \<and> tok_type (tokens ! i) = ''SEMICOLON'' then i + 1 else i);
          node = set_source_range node (tokens ! start) (last_token tokens i) file_path
      in ((Some node, i - start), n + 1))"

definition parse_break_statement where
  "parse_break_statement = parse_jump_statement BREAK_STATEMENT"

definition parse_continue_statement where
  "parse_continue_statement = parse_jump_statement CONTINUE_STATEMENT"

definition parse_class_declaration ::
  "(nat \<Rightarrow> string) \<Rightarrow> nat \<Rightarrow> Token list \<Rightarrow> nat \<Rightarrow> string option
     \<Rightarrow> (ASTNode option \<times> nat) \<times> nat" where
  "parse_class_declaration ids n tokens start file_path =
     (let node = new_node ids n CLASS_DECLARATION;
          i = start + 1;
          (node, i) =
            (if i < length tokens \<and> tok_type (tokens ! i) = ''IDENTIFIER''
             then (set_attribute node ''name'' (PStr (tok_value (tokens ! i))), i + 1)
             else (node, i));
          i = skip_until tokens ''RBRACE'' i;
          i = (if i < length tokens then i + 1 else i);
          node = set_source_range node (tokens ! start) (last_token tokens i) file_path
      in ((Some node, i - start), n + 1))"

definition parse_import_export ::
  "(nat \<Rightarrow> string) \<Rightarrow> nat \<Rightarrow> Token list \<Rightarrow> nat \<Rightarrow> string option
     \<Rightarrow> (ASTNode option \<times> nat) \<times> nat" where
  "parse_import_export ids n tokens start file_path =
     (let node = new_node ids n IMPORT_DECLARATION;
          node = set_attribute node ''type'' (PStr (tok_value (tokens ! start)));
          i = skip_until tokens ''SEMICOLON'' (start + 1);
          i = (if i < length tokens then i + 1 else i);
          node = set_source_range node (tokens ! start) (last_token tokens i) file_path
      in ((Some node, i - start), n + 1))"

definition parse_expression_statement ::
  "(nat \<Rightarrow> string) \<Rightarrow> nat \<Rightarrow> Token list \<Rightarrow> nat \<Rightarrow> string option
     \<Rightarrow> error + ((ASTNode option \<times> nat) \<times> nat)" where
  "parse_expression_statement ids n tokens start file_path =
     bind_err (parse_expression ids n tokens start file_path)
       (\<lambda>((expr, consumed), n').
          case expr of
            Some e \<Rightarrow>
              let stmt = new_node ids n' EXPRESSION_STATEMENT
              in Inr ((Some (add_child stmt (Some e)), consumed), n' + 1)
          | None \<Rightarrow> Inr ((None, 1), n'))"

definition parse_statement ::
  "(nat \<Rightarrow> string) \<Rightarrow> nat \<Rightarrow> Token list \<Rightarrow> nat \<Rightarrow> string option
     \<Rightarrow> error + ((ASTNode option \<times> nat) \<times> nat)" where
  "parse_statement ids n tokens start file_path =
     (if start \<ge> length tokens then Inr ((None, 0), n)
      else
        let token = tokens ! start in
        if tok_type token = ''FUNCTION'' then
          Inr (parse_function_declaration ids n tokens start file_path)
        else if tok_type token \<in> set [''CONST'', ''LET'', ''VAR''] then
          parse_variable_declaration ids n tokens start file_path
        else if tok_type token = ''IF'' then
          Inr (parse_if_statement ids n tokens start file_path)
        else if tok_type token = ''FOR'' then
          Inr (parse_for_statement ids n tokens start file_path)
        else if tok_type token = ''WHILE'' then
          Inr (parse_while_statement ids n tokens start file_path)
        else if tok_type token = ''RETURN'' then
          parse_return_statement ids n tokens start file_path
        else if tok_type token = ''BREAK'' then
          Inr (parse_break_statement ids n tokens start file_path)
        else if tok_type token = ''CONTINUE'' then
          Inr (parse_continue_statement ids n tokens start file_path)
        else if tok_type token = ''CLASS'' then
          Inr (parse_class_declaration ids n tokens start file_path)
        else if tok_type token \<in> set [''IMPORT'', ''EXPORT''] then
          Inr (parse_import_export ids n tokens start file_path)
        else parse_expression_statement ids n tokens start file_path)"

text \<open>The loop of \<^verbatim>\<open>_parse_tokens\<close>.\<close>

function parse_tokens_loop ::
  "(nat \<Rightarrow> string) \<Rightarrow> Token list \<Rightarrow> string option \<Rightarrow> nat \<Rightarrow> ASTNode \<Rightarrow> nat
     \<Rightarrow> error + (ASTNode \<times> nat)"
where
  "parse_tokens_loop ids tokens file_path i root_node n =
     (if i < length tokens then
        (case parse_statement ids n tokens i file_path of
           Inl e \<Rightarrow> Inl e
         | Inr ((node, consumed), n') \<Rightarrow>
             parse_tokens_loop ids tokens file_path
               (i + (if consumed > 0 then consumed else 1))
               (case node of Some s \<Rightarrow> add_child root_node (Some s) | None \<Rightarrow> root_node)
               n')
      else Inr (root_node, n))"
  by pat_completeness auto
termination
  by (relation "measure (\<lambda>(ids, tokens, file_path, i, root_node, n). length tokens - i)") auto

definition parse_tokens ::
  "(nat \<Rightarrow> string) \<Rightarrow> nat \<Rightarrow> Token list \<Rightarrow> string option
     \<Rightarrow> error + (ASTNode \<times> nat)" where
  "parse_tokens ids n tokens file_path =
     (let root_node = ASTNode (ids n) PROGRAM [] [] None (Some ''javascript'');
          root_node = set_attribute root_node ''language'' (PStr ''javascript'')
      in parse_tokens_loop ids tokens file_path 0 root_node (n + 1))"

text \<open>
  \<^verbatim>\<open>JavaScriptParser.parse\<close>. An exception raised in the body is raised again as a
  ValueError that carries its text; \<open>None\<close> stands for a tokenizer loop that does not
  end.
\<close>

definition javascript_parse ::
  "(nat \<Rightarrow> string) \<Rightarrow> string \<Rightarrow> string option \<Rightarrow> (error + UniversalSyntaxTree) option" where
  "javascript_parse ids source_code file_path =
     (case tokenize source_code of
        None \<Rightarrow> None
      | Some tokens \<Rightarrow>
          (case parse_tokens ids 0 tokens file_path of
             Inl e \<Rightarrow>
               Some (Inl (ValueError (''Erreur lors du parsing JavaScript: '' @ str_exception e)))
           | Inr (root_node, n) \<Rightarrow>
               Some (Inr \<lparr>root = root_node,
                              metadata = [(''language'', PStr ''javascript''),
                                          (''file_path'', opt_str file_path),
                                          (''parser'', PStr ''JavaScriptParser''),
                                          (''token_count'', PInt (int (length tokens)))],
                              version = ''1.0''\<rparr>)))"

section \<open>Parser registry and dispatch (\<^verbatim>\<open>src/parsers/base_parser.py\<close>)\<close>

text \<open>
  A parser object: its language name, its extensions and its \<^verbatim>\<open>parse\<close> method. The
  method returns a tree or raises; \<open>None\<close> stands for a call that does not return.
\<close>

record Parser =
  language :: string
  supported_extensions :: "string list"
  parse :: "string \<Rightarrow> string option \<Rightarrow> (error + UniversalSyntaxTree) option"

text \<open>The registry's two dictionaries \<^verbatim>\<open>_parsers\<close> and \<^verbatim>\<open>_extension_map\<close>.\<close>

record ParserRegistry =
  parsers :: "(string \<times> Parser) list"
  extension_map :: "(string \<times> string) list"

definition empty_registry :: ParserRegistry where
  "empty_registry = \<lparr>parsers = [], extension_map = []\<rparr>"

definition register_parser :: "ParserRegistry \<Rightarrow> Parser \<Rightarrow> ParserRegistry" where
  "register_parser reg parser =
     \<lparr>parsers = dict_set (parsers reg) (language parser) parser,
      extension_map =
        fold (\<lambda>ext m. dict_set m ext (language parser)) (supported_extensions parser)
          (extension_map reg)\<rparr>"

definition get_parser :: "ParserRegistry \<Rightarrow> string \<Rightarrow> Parser option" where
  "get_parser reg lang = map_of (parsers reg) lang"

text \<open>\<^verbatim>\<open>str.lower()\<close> on code points below 256.\<close>

definition lower_char :: "char \<Rightarrow> char" where
  "lower_char c =
     (let n = of_char c :: nat in
      if (65 \<le> n \<and> n \<le> 90) \<or> (192 \<le> n \<and> n \<le> 222 \<and> n \<noteq> 215) then char_of (n + 32) else c)"

definition lower :: "string \<Rightarrow> string" where
  "lower s = map lower_char s"

text \<open>\<^verbatim>\<open>get_parser_by_extension\<close>. The test \<^verbatim>\<open>if language:\<close> fails for \<^verbatim>\<open>None\<close> and
  for the empty string.\<close>

definition get_parser_by_extension :: "ParserRegistry \<Rightarrow> string \<Rightarrow> Parser option" where
  "get_parser_by_extension reg file_extension =
     (case map_of (extension_map reg) (lower file_extension) of
        None \<Rightarrow> None
      | Some lang \<Rightarrow> if lang \<noteq> [] then map_of (parsers reg) lang else None)"

definition list_supported_languages :: "ParserRegistry \<Rightarrow> string list" where
  "list_supported_languages reg = map fst (parsers reg)"


text \<open>
  \<^verbatim>\<open>os.path.splitext\<close> of the standard library, on POSIX paths. \<open>rfind\<close> is
  \<^verbatim>\<open>str.rfind\<close> for one character, with \<open>-1\<close> for no occurrence.
\<close>

definition rfind :: "string \<Rightarrow> char \<Rightarrow> int" where
  "rfind p c =
     (case filter (\<lambda>i. p ! i = c) (rev [0..<length p]) of [] \<Rightarrow> -1 | i # _ \<Rightarrow> int i)"

function has_name_before_dot :: "string \<Rightarrow> nat \<Rightarrow> nat \<Rightarrow> bool" where
  "has_name_before_dot p filenameIndex dotIndex =
     (if filenameIndex < dotIndex then
        (if p ! filenameIndex \<noteq> CHR ''.'' then True
         else has_name_before_dot p (filenameIndex + 1) dotIndex)
      else False)"
  by pat_completeness auto
termination
  by (relation "measure (\<lambda>(p, filenameIndex, dotIndex). dotIndex - filenameIndex)") auto

definition splitext :: "string \<Rightarrow> string \<times> string" where
  "splitext p =
     (let sepIndex = rfind p (CHR ''/'');
          dotIndex = rfind p (CHR ''.'')
      in if dotIndex > sepIndex \<and> has_name_before_dot p (nat (sepIndex + 1)) (nat dotIndex)
         then (take (nat dotIndex) p, drop (nat dotIndex) p)
         else (p, []))"

text \<open>How an f-string prints an optional string.\<close>

definition format_opt :: "string option \<Rightarrow> string" where
  "format_opt s = (case s of None \<Rightarrow> ''None'' | Some x \<Rightarrow> x)"

definition no_parser_message :: "string option \<Rightarrow> string option \<Rightarrow> string" where
  "no_parser_message lang file_path =
     ''Aucun parser trouv'' @ [char_of (233 :: nat)] @ '' pour le langage '' @ [CHR 0x27]
     @ format_opt lang @ [CHR 0x27] @ '' ou le fichier '' @ [CHR 0x27] @ format_opt file_path
     @ [CHR 0x27]"

text \<open>The parser that \<^verbatim>\<open>parse_code\<close> selects: \<^verbatim>\<open>if language: ... elif file_path: ...\<close>.\<close>

definition select_parser ::
  "ParserRegistry \<Rightarrow> string option \<Rightarrow> string option \<Rightarrow> Parser option" where
  "select_parser reg lang file_path =
     (if lang \<noteq> None \<and> lang \<noteq> Some [] then get_parser reg (format_opt lang)
      else if file_path \<noteq> None \<and> file_path \<noteq> Some [] then
        get_parser_by_extension reg (snd (splitext (format_opt file_path)))
      else None)"

definition parse_code ::
  "ParserRegistry \<Rightarrow> string \<Rightarrow> string option \<Rightarrow> string option
     \<Rightarrow> (error + UniversalSyntaxTree) option" where
  "parse_code reg source_code lang file_path =
     (case select_parser reg lang file_path of
        None \<Rightarrow> Some (Inl (ValueError (no_parser_message lang file_path)))
      | Some parser \<Rightarrow> parse parser source_code file_path)"




text \<open>The parser object \<^verbatim>\<open>JavaScriptParser()\<close> of a run whose \<^verbatim>\<open>uuid4\<close> values are
  \<open>ids\<close>.\<close>

definition JavaScriptParser :: "(nat \<Rightarrow> string) \<Rightarrow> Parser" where
  "JavaScriptParser ids =
     \<lparr>language = ''javascript'',
      supported_extensions = [''.js'', ''.jsx'', ''.mjs'', ''.ts'', ''.tsx''],
      parse = javascript_parse ids\<rparr>"

text \<open>The least number of characters that a match of a pattern consumes.\<close>

fun min_len :: "regex \<Rightarrow> nat" where
  "min_len (Lit s) = length s"
| "min_len Dot = 1"
| "min_len (CharSet P) = 1"
| "min_len (Seq a b) = min_len a + min_len b"
| "min_len (Alt a b) = min (min_len a) (min_len b)"
| "min_len (Star a) = 0"
| "min_len (LazyStar a) = 0"
| "min_len (Opt a) = 0"
| "min_len WordBoundary = 0"

text \<open>
  The registry invariant: every language name stored as a value of the extension map is
  a key of the parser map.
\<close>

definition registry_invariant :: "ParserRegistry \<Rightarrow> bool" where
  "registry_invariant reg =
     list_all (\<lambda>(ext, lang). lang \<in> set (list_supported_languages reg)) (extension_map reg)"

text \<open>A parser object whose language name is the empty string.\<close>

definition nameless_parser :: Parser where
  "nameless_parser =
     \<lparr>language = [], supported_extensions = [''.x''],
      parse = (\<lambda>source_code file_path. Some (Inl (ValueError ''unsupported'')))\<rparr>"

text \<open>
  The specification's resolution: in priority order, the explicit language argument and
  then the extension of the file path.
\<close>

definition resolve_in_priority_order ::
  "ParserRegistry \<Rightarrow> string option \<Rightarrow> string option \<Rightarrow> Parser option" where
  "resolve_in_priority_order reg lang file_path =
     (case (case lang of None \<Rightarrow> None | Some l \<Rightarrow> get_parser reg l) of
        Some parser \<Rightarrow> Some parser
      | None \<Rightarrow>
          (case file_path of
             None \<Rightarrow> None
           | Some p \<Rightarrow> get_parser_by_extension reg (snd (splitext p))))"

text \<open>A registry that holds the JavaScript parser only.\<close>

definition javascript_registry :: ParserRegistry where
  "javascript_registry = register_parser empty_registry (JavaScriptParser (\<lambda>n. []))"

section \<open>The Python adapter (\<^verbatim>\<open>src/parsers/python_parser.py\<close>)\<close>

text \<open>
  The trees of Python's \<^verbatim>\<open>ast\<close> module, as the adapter reads them: a node has a class
  name, its fields in the order of \<^verbatim>\<open>_fields\<close>, and a position when it has the
  attributes \<^verbatim>\<open>lineno\<close> and \<^verbatim>\<open>col_offset\<close>. A field holds a node, a list whose items
  are nodes or \<^verbatim>\<open>None\<close>, or a plain value. An end position that is absent stands
  for a node without the attribute \<^verbatim>\<open>end_lineno\<close> or \<^verbatim>\<open>end_col_offset\<close>.
\<close>

record pypos =
  lineno :: int
  col_offset :: int
  end_lineno :: "int option"
  end_col_offset :: "int option"

datatype pyast = PyAST (cls: string) (fields: "(string \<times> pyfield) list") (node_pos: "pypos option")
  and pyfield = FNode pyast | FNodes "pyast option list" | FValue pyval

text \<open>\<^verbatim>\<open>_get_python_type\<close>. The tests are \<^verbatim>\<open>isinstance\<close> tests, and \<^verbatim>\<open>bool\<close> is a
  subclass of \<^verbatim>\<open>int\<close>.\<close>

fun isinstance_str :: "pyval \<Rightarrow> bool" where
  "isinstance_str (PStr s) = True"
| "isinstance_str v = False"

fun isinstance_int :: "pyval \<Rightarrow> bool" where
  "isinstance_int (PInt i) = True"
| "isinstance_int (PBool b) = True"
| "isinstance_int v = False"

fun isinstance_float :: "pyval \<Rightarrow> bool" where
  "isinstance_float (PFloat s) = True"
| "isinstance_float v = False"

fun isinstance_bool :: "pyval \<Rightarrow> bool" where
  "isinstance_bool (PBool b) = True"
| "isinstance_bool v = False"

definition get_python_type :: "pyval \<Rightarrow> string" where
  "get_python_type v =
     (if isinstance_str v then DataType_value DT_STRING
      else if isinstance_int v then DataType_value DT_INTEGER
      else if isinstance_float v then DataType_value DT_FLOAT
      else if isinstance_bool v then DataType_value DT_BOOLEAN
      else if v = PNone then DataType_value DT_NULL
      else DataType_value DT_ANY)"

text \<open>The table \<^verbatim>\<open>mapping\<close> of \<^verbatim>\<open>_get_asu_node_type\<close>, keyed by class name.\<close>

definition node_type_mapping :: "(string \<times> NodeType) list" where
  "node_type_mapping =
     [(''Module'', PROGRAM),
      (''FunctionDef'', FUNCTION_DECLARATION),
      (''AsyncFunctionDef'', FUNCTION_DECLARATION),
      (''ClassDef'', CLASS_DECLARATION),
      (''Return'', RETURN_STATEMENT),
      (''Delete'', EXPRESSION_STATEMENT),
      (''Assign'', ASSIGNMENT_EXPRESSION),
      (''AugAssign'', ASSIGNMENT_EXPRESSION),
      (''AnnAssign'', VARIABLE_DECLARATION),
      (''For'', FOR_STATEMENT),
      (''AsyncFor'', FOR_STATEMENT),
      (''While'', WHILE_STATEMENT),
      (''If'', IF_STATEMENT),
      (''With'', BLOCK_STATEMENT),
      (''AsyncWith'', BLOCK_STATEMENT),
      (''Raise'', EXPRESSION_STATEMENT),
      (''Try'', BLOCK_STATEMENT),
      (''Assert'', EXPRESSION_STATEMENT),
      (''Import'', IMPORT_DECLARATION),
      (''ImportFrom'', IMPORT_DECLARATION),
      (''Global'', EXPRESSION_STATEMENT),
      (''Nonlocal'', EXPRESSION_STATEMENT),
      (''Expr'', EXPRESSION_STATEMENT),
      (''Pass'', EXPRESSION_STATEMENT),
      (''Break'', BREAK_STATEMENT),
      (''Continue'', CONTINUE_STATEMENT),
      (''BoolOp'', BINARY_EXPRESSION),
      (''BinOp'', BINARY_EXPRESSION),
      (''UnaryOp'', UNARY_EXPRESSION),
      (''Lambda'', FUNCTION_DECLARATION),
      (''IfExp'', IF_STATEMENT),
      (''Dict'', LITERAL),
      (''Set'', LITERAL),
      (''ListComp'', EXPRESSION_STATEMENT),
      (''SetComp'', EXPRESSION_STATEMENT),
      (''DictComp'', EXPRESSION_STATEMENT),
      (''GeneratorExp'', EXPRESSION_STATEMENT),
      (''Await'', EXPRESSION_STATEMENT),
      (''Yield'', EXPRESSION_STATEMENT),
      (''YieldFrom'', EXPRESSION_STATEMENT),
      (''Compare'', BINARY_EXPRESSION),
      (''Call'', CALL_EXPRESSION),
      (''Constant'', LITERAL),
      (''Attribute'', MEMBER_EXPRESSION),
      (''Subscript'', MEMBER_EXPRESSION),
      (''Starred'', EXPRESSION_STATEMENT),
      (''Name'', IDENTIFIER),
      (''List'', LITERAL),
      (''Tuple'', LITERAL),
      (''Slice'', EXPRESSION_STATEMENT)]"

text \<open>
  The deprecated classes \<^verbatim>\<open>ast.Num\<close>, \<^verbatim>\<open>ast.Str\<close>, \<^verbatim>\<open>ast.Bytes\<close> and
  \<^verbatim>\<open>ast.NameConstant\<close>: since Python 3.8 an \<^verbatim>\<open>isinstance\<close> test against one of them
  holds for a \<^verbatim>\<open>Constant\<close> node whose value has the matching type, and for no other
  node.
\<close>

definition constant_value :: "pyast \<Rightarrow> pyval option" where
  "constant_value node =
     (if cls node = ''Constant'' then
        (case map_of (fields node) ''value'' of Some (FValue v) \<Rightarrow> Some v | _ \<Rightarrow> None)
      else None)"

definition is_Num :: "pyast \<Rightarrow> bool" where
  "is_Num node =
     (case constant_value node of
        Some (PInt i) \<Rightarrow> True | Some (PFloat s) \<Rightarrow> True | Some (POther s) \<Rightarrow> s \<noteq> ''Ellipsis''
      | _ \<Rightarrow> False)"

definition is_Str :: "pyast \<Rightarrow> bool" where
  "is_Str node = (case constant_value node of Some (PStr s) \<Rightarrow> True | _ \<Rightarrow> False)"

definition is_Bytes :: "pyast \<Rightarrow> bool" where
  "is_Bytes node = (case constant_value node of Some (PBytes s) \<Rightarrow> True | _ \<Rightarrow> False)"

definition is_NameConstant :: "pyast \<Rightarrow> bool" where
  "is_NameConstant node =
     (case constant_value node of Some PNone \<Rightarrow> True | Some (PBool b) \<Rightarrow> True | _ \<Rightarrow> False)"

definition get_asu_node_type :: "pyast \<Rightarrow> NodeType" where
  "get_asu_node_type node =
     (if is_Num node then LITERAL
      else if is_Str node then LITERAL
      else if is_Bytes node then LITERAL
      else if is_NameConstant node then LITERAL
      else (case map_of node_type_mapping (cls node) of
              Some t \<Rightarrow> t
            | None \<Rightarrow> EXPRESSION_STATEMENT))"

text \<open>
  Reading an attribute of a native node: AttributeError when the node has no such
  field. A field that holds a node or a list where the adapter stores the value in
  the attribute bag is \<open>OutsideModel\<close>.
\<close>

definition field_of :: "pyast \<Rightarrow> string \<Rightarrow> error + pyfield" where
  "field_of node name =
     (case map_of (fields node) name of None \<Rightarrow> Inl (AttributeError name) | Some f \<Rightarrow> Inr f)"

fun plain_value :: "pyfield \<Rightarrow> error + pyval" where
  "plain_value (FValue v) = Inr v"
| "plain_value f = Inl (OutsideModel ''node stored as attribute value'')"

fun node_items :: "pyfield \<Rightarrow> error + pyast option list" where
  "node_items (FNodes ns) = Inr ns"
| "node_items (FValue (PList [])) = Inr []"
| "node_items f = Inl (TypeError ''object is not iterable'')"

text \<open>\<^verbatim>\<open>type(x).__name__\<close> for a field that holds a node.\<close>

fun class_name :: "pyfield \<Rightarrow> error + pyval" where
  "class_name (FNode a) = Inr (PStr (cls a))"
| "class_name f = Inl (OutsideModel ''class name of a plain value'')"

text \<open>Whether a field value is true in \<^verbatim>\<open>if x:\<close>: a node is, a list is when not empty.\<close>

fun field_truthy :: "pyfield \<Rightarrow> bool" where
  "field_truthy (FNode a) = True"
| "field_truthy (FNodes ns) = (ns \<noteq> [])"
| "field_truthy (FValue v) = truthy v"

text \<open>The decorator loops: the \<^verbatim>\<open>id\<close> of a \<^verbatim>\<open>Name\<close>, and where \<open>with_attribute\<close> is
  set the \<^verbatim>\<open>attr\<close> of an \<^verbatim>\<open>Attribute\<close>; other items are passed over.\<close>

fun collect_names :: "bool \<Rightarrow> pyast option list \<Rightarrow> error + pyval list" where
  "collect_names with_attribute [] = Inr []"
| "collect_names with_attribute (None # rest) = collect_names with_attribute rest"
| "collect_names with_attribute (Some d # rest) =
     (if cls d = ''Name'' then
        bind_err (bind_err (field_of d ''id'') plain_value) (\<lambda>v.
        bind_err (collect_names with_attribute rest) (\<lambda>vs. Inr (v # vs)))
      else if with_attribute \<and> cls d = ''Attribute'' then
        bind_err (bind_err (field_of d ''attr'') plain_value) (\<lambda>v.
        bind_err (collect_names with_attribute rest) (\<lambda>vs. Inr (v # vs)))
      else collect_names with_attribute rest)"

text \<open>\<^verbatim>\<open>arg.arg\<close> for every item of \<^verbatim>\<open>ast_node.args.args\<close>; \<^verbatim>\<open>None.arg\<close> raises.\<close>

fun collect_args :: "pyast option list \<Rightarrow> error + pyval list" where
  "collect_args [] = Inr []"
| "collect_args (None # rest) = Inl (AttributeError ''arg'')"
| "collect_args (Some a # rest) =
     bind_err (bind_err (field_of a ''arg'') plain_value) (\<lambda>v.
     bind_err (collect_args rest) (\<lambda>vs. Inr (v # vs)))"

text \<open>The dictionaries \<^verbatim>\<open>name_info\<close> of the import branch.\<close>

fun collect_aliases :: "pyast option list \<Rightarrow> error + pyval list" where
  "collect_aliases [] = Inr []"
| "collect_aliases (None # rest) = Inl (AttributeError ''name'')"
| "collect_aliases (Some a # rest) =
     bind_err (bind_err (field_of a ''name'') plain_value) (\<lambda>nm.
     bind_err (bind_err (field_of a ''asname'') plain_value) (\<lambda>asname.
     bind_err (collect_aliases rest) (\<lambda>vs.
     Inr (PDict (if truthy asname then [(''name'', nm), (''alias'', asname)]
                 else [(''name'', nm)]) # vs))))"

text \<open>The decorator part shared by the function and the class branch.\<close>

definition process_decorators :: "bool \<Rightarrow> pyast \<Rightarrow> ASTNode \<Rightarrow> error + ASTNode" where
  "process_decorators with_attribute ast_node asu_node =
     bind_err (field_of ast_node ''decorator_list'') (\<lambda>dl.
       if field_truthy dl then
         bind_err (bind_err (node_items dl) (collect_names with_attribute)) (\<lambda>decorators.
         Inr (set_attribute asu_node ''decorators'' (PList decorators)))
       else Inr asu_node)"

definition process_node_attributes :: "pyast \<Rightarrow> ASTNode \<Rightarrow> error + ASTNode" where
  "process_node_attributes ast_node asu_node =
     (if cls ast_node = ''Module'' then Inr (set_attribute asu_node ''type'' (PStr ''module''))
      else if cls ast_node \<in> set [''FunctionDef'', ''AsyncFunctionDef''] then
        bind_err (bind_err (field_of ast_node ''name'') plain_value) (\<lambda>nm.
        let asu_node = set_attribute asu_node ''name'' nm;
            asu_node = set_attribute asu_node ''is_async''
                         (PBool (cls ast_node = ''AsyncFunctionDef''))
        in bind_err (field_of ast_node ''args'') (\<lambda>a.
           bind_err (if field_truthy a then
                       (case a of
                          FNode arguments \<Rightarrow>
                            bind_err (bind_err (field_of arguments ''args'') node_items) collect_args
                        | _ \<Rightarrow> Inl (AttributeError ''args''))
                     else Inr []) (\<lambda>args.
           process_decorators True ast_node (set_attribute asu_node ''parameters'' (PList args)))))
      else if cls ast_node = ''ClassDef'' then
        bind_err (bind_err (field_of ast_node ''name'') plain_value) (\<lambda>nm.
        bind_err (bind_err (bind_err (field_of ast_node ''bases'') node_items)
                    (collect_names False)) (\<lambda>bases.
        process_decorators False ast_node
          (set_attribute (set_attribute asu_node ''name'' nm) ''base_classes'' (PList bases))))
      else if cls ast_node = ''Name'' then
        bind_err (bind_err (field_of ast_node ''id'') plain_value) (\<lambda>i.
        bind_err (bind_err (field_of ast_node ''ctx'') class_name) (\<lambda>c.
        Inr (set_attribute (set_attribute asu_node ''name'' i) ''context'' c)))
      else if cls ast_node = ''Constant'' then
        bind_err (bind_err (field_of ast_node ''value'') plain_value) (\<lambda>v.
        Inr (set_attribute (set_attribute asu_node ''value'' v) ''data_type''
               (PStr (get_python_type v))))
      else if is_Num ast_node then
        bind_err (bind_err (field_of ast_node ''value'') plain_value) (\<lambda>v.
        Inr (set_attribute (set_attribute asu_node ''value'' v) ''data_type''
               (PStr (DataType_value DT_NUMBER))))
      else if is_Str ast_node then
        bind_err (bind_err (field_of ast_node ''value'') plain_value) (\<lambda>v.
        Inr (set_attribute (set_attribute asu_node ''value'' v) ''data_type''
               (PStr (DataType_value DT_STRING))))
      else if cls ast_node = ''BinOp'' then
        bind_err (bind_err (field_of ast_node ''op'') class_name) (\<lambda>c.
        Inr (set_attribute asu_node ''operator'' c))
      else if cls ast_node = ''UnaryOp'' then
        bind_err (bind_err (field_of ast_node ''op'') class_name) (\<lambda>c.
        Inr (set_attribute asu_node ''operator'' c))
      else if cls ast_node = ''Call'' then
        bind_err (field_of ast_node ''func'') (\<lambda>f.
          case f of
            FNode func \<Rightarrow>
              if cls func = ''Name'' then
                bind_err (bind_err (field_of func ''id'') plain_value) (\<lambda>v.
                Inr (set_attribute asu_node ''function_name'' v))
              else if cls func = ''Attribute'' then
                bind_err (bind_err (field_of func ''attr'') plain_value) (\<lambda>v.
                Inr (set_attribute asu_node ''function_name'' v))
              else Inr asu_node
          | _ \<Rightarrow> Inr asu_node)
      else if cls ast_node = ''Attribute'' then
        bind_err (bind_err (field_of ast_node ''attr'') plain_value) (\<lambda>v.
        Inr (set_attribute asu_node ''attribute'' v))
      else if cls ast_node \<in> set [''Import'', ''ImportFrom''] then
        bind_err (if cls ast_node = ''ImportFrom'' then
                    bind_err (bind_err (field_of ast_node ''module'') plain_value) (\<lambda>md.
                    bind_err (bind_err (field_of ast_node ''level'') plain_value) (\<lambda>lv.
                    Inr (set_attribute (set_attribute asu_node ''module'' md) ''level'' lv)))
                  else Inr asu_node) (\<lambda>asu_node.
        bind_err (bind_err (bind_err (field_of ast_node ''names'') node_items) collect_aliases)
          (\<lambda>names. Inr (set_attribute asu_node ''names'' (PList names))))
      else Inr asu_node)"

text \<open>\<^verbatim>\<open>ast.iter_child_nodes\<close>: the nodes held by the fields, in field order.\<close>

fun field_nodes :: "pyfield \<Rightarrow> pyast list" where
  "field_nodes (FNode a) = [a]"
| "field_nodes (FNodes ns) = concat (map (\<lambda>item. case item of None \<Rightarrow> [] | Some a \<Rightarrow> [a]) ns)"
| "field_nodes (FValue v) = []"

definition iter_child_nodes :: "pyast \<Rightarrow> pyast list" where
  "iter_child_nodes node = concat (map (\<lambda>kv. field_nodes (snd kv)) (fields node))"

text \<open>The source range that \<^verbatim>\<open>_convert_ast_node\<close> gives a node with a position.\<close>

definition position_range :: "pypos \<Rightarrow> string option \<Rightarrow> SourceRange" where
  "position_range p file_path =
     \<lparr>range_start = \<lparr>loc_line = lineno p, loc_column = col_offset p, loc_file_path = file_path\<rparr>,
      range_end =
        \<lparr>loc_line = (case end_lineno p of Some l \<Rightarrow> l | None \<Rightarrow> lineno p),
         loc_column = (case end_col_offset p of Some c \<Rightarrow> c | None \<Rightarrow> col_offset p),
         loc_file_path = file_path\<rparr>\<rparr>"

text \<open>
  \<^verbatim>\<open>_convert_ast_node\<close>, with the loop over the child nodes as a function of its own.
  Ids are drawn as in the JavaScript parser: one for the node, then those of its
  children in order. The recursion is as deep as the native tree; the interpreter's
  recursion limit, a resource bound of the runtime, is no part of the model.
\<close>

function convert_ast_node ::
    "(nat \<Rightarrow> string) \<Rightarrow> nat \<Rightarrow> pyast \<Rightarrow> string option \<Rightarrow> error + (ASTNode \<times> nat)"
  and convert_children ::
    "(nat \<Rightarrow> string) \<Rightarrow> nat \<Rightarrow> pyast list \<Rightarrow> string option \<Rightarrow> ASTNode
       \<Rightarrow> error + (ASTNode \<times> nat)"
where
  "convert_ast_node ids n node file_path =
     (let asu_node = ASTNode (ids n) (get_asu_node_type node) [] [] None (Some ''python'');
          asu_node = (case node_pos node of
                        Some p \<Rightarrow> assign_source_range asu_node (Some (position_range p file_path))
                      | None \<Rightarrow> asu_node)
      in case process_node_attributes node asu_node of
           Inl e \<Rightarrow> Inl e
         | Inr asu_node \<Rightarrow> convert_children ids (n + 1) (iter_child_nodes node) file_path asu_node)"
| "convert_children ids n [] file_path asu_node = Inr (asu_node, n)"
| "convert_children ids n (child # rest) file_path asu_node =
     (case convert_ast_node ids n child file_path of
        Inl e \<Rightarrow> Inl e
      | Inr (child_asu, n') \<Rightarrow>
          convert_children ids n' rest file_path (add_child asu_node (Some child_asu)))"
  by pat_completeness auto
termination
proof (relation "measure (\<lambda>x. case x of
         Inl (ids, n, node, file_path) \<Rightarrow> 2 * size node
       | Inr (ids, n, nodes, file_path, asu_node) \<Rightarrow> 2 * size_list size nodes + 1)")
  show "wf (measure (\<lambda>x. case x of
         Inl (ids, n, node, file_path) \<Rightarrow> 2 * size node
       | Inr (ids, n, nodes, file_path, asu_node) \<Rightarrow> 2 * size_list size nodes + 1))"
    by simp
next
  fix ids :: "nat \<Rightarrow> string" and n :: nat and node :: pyast and file_path :: "string option"
    and x :: ASTNode and xa :: ASTNode and x2 :: ASTNode
  have item: "size_list size (case item of None \<Rightarrow> [] | Some a \<Rightarrow> [a])
                \<le> size_option size item" for item :: "pyast option"
    by (cases item) simp_all
  have items: "size_list size (concat (map (\<lambda>item. case item of None \<Rightarrow> [] | Some a \<Rightarrow> [a]) ns))
                 \<le> size_list (size_option size) ns" for ns :: "pyast option list"
  proof (induction ns)
    case Nil
    then show ?case by simp
  next
    case (Cons i ns)
    with item[of i] show ?case by (simp add: size_list_append)
  qed
  have field: "size_list size (field_nodes f) \<le> size f" for f
    using items by (cases f) (simp_all add: le_SucI)
  have flds: "size_list size (concat (map (\<lambda>kv. field_nodes (snd kv)) fs))
                \<le> size_list (size_prod (\<lambda>x. 0) size) fs" for fs :: "(string \<times> pyfield) list"
  proof (induction fs)
    case Nil
    then show ?case by simp
  next
    case (Cons kv fs)
    with field[of "snd kv"] show ?case by (cases kv) (simp add: size_list_append)
  qed
  have "size_list size (iter_child_nodes node) < size node"
    using flds[of "fields node"] by (cases node) (simp add: iter_child_nodes_def)
  then show "(Inr (ids, n + 1, iter_child_nodes node, file_path, x2),
              Inl (ids, n, node, file_path)) \<in> measure (\<lambda>x. case x of
         Inl (ids, n, node, file_path) \<Rightarrow> 2 * size node
       | Inr (ids, n, nodes, file_path, asu_node) \<Rightarrow> 2 * size_list size nodes + 1)"
    by simp
qed auto

text \<open>
  The native layer. \<^verbatim>\<open>ast.parse\<close> belongs to the Python runtime: it is a parameter of
  the adapter, a function of the source text and the file name that returns a tree,
  raises SyntaxError, or raises another exception. A SyntaxError carries a message
  and, when the native parser supplies them, a file name, a line and a column.
\<close>

record SyntaxError =
  msg :: string
  filename :: "string option"
  error_lineno :: "int option"
  error_offset :: "int option"





text \<open>
  \<^verbatim>\<open>PythonParser.parse\<close>. A SyntaxError of the native layer is raised again as a
  ValueError that carries its text, and so is any other exception of the body.
\<close>




section \<open>Trees up to node ids\<close>

text \<open>
  A node takes its id from \<^verbatim>\<open>uuid.uuid4()\<close> when it is built, so the ids of a tree
  are not a function of the parsed text. \<open>strip_ids\<close> replaces every id of a tree by
  the empty string and keeps everything else: types, children and their order,
  attributes, source ranges and language tags. Two trees are equal up to node ids when
  their images under \<open>strip_ids\<close> are equal.
\<close>

fun strip_ids :: "ASTNode \<Rightarrow> ASTNode" where
  "strip_ids (ASTNode i t cs a sr l) = ASTNode [] t (map (map_option strip_ids) cs) a sr l"


text \<open>
  What a statement handler of the JavaScript parser returns, without the ids of the
  node and without the number of ids drawn: the error, or the node up to ids and the
  next token index. \<open>erase_loop\<close> is the same for the statement loop.
\<close>

definition erase_step ::
  "error + ((ASTNode option \<times> nat) \<times> nat) \<Rightarrow> error + (ASTNode option \<times> nat)" where
  "erase_step r = map_sum id (\<lambda>x. (map_option strip_ids (fst (fst x)), snd (fst x))) r"



section \<open>Verified properties\<close>

subsection \<open>Cyclomatic estimate\<close>

lemma estimate_fold_shift:
  "fold (\<lambda>node complexity.
           if node_type node \<in> set control_flow_nodes then complexity + 1 else complexity)
        nodes (c::int)
   = c + int (length (filter (\<lambda>n. node_type n \<in> set control_flow_nodes) nodes))"
  by (induction nodes arbitrary: c) auto

lemma fold_count_nodes_error:
  "fold (\<lambda>child acc. bind_err acc (count_nodes child)) cs (Inl e) = Inl e"
  by (induction cs) (simp_all add: bind_err_def)

lemma fold_count_nodes_preorder:
  assumes "\<And>n acc. Some n \<in> set cs \<Longrightarrow> well_formed n \<Longrightarrow>
              count_nodes (Some n) acc = Inr (acc @ preorder n)"
    and "list_all (\<lambda>c. case c of None \<Rightarrow> False | Some n \<Rightarrow> well_formed n) cs"
  shows "fold (\<lambda>child acc. bind_err acc (count_nodes child)) cs (Inr acc)
         = Inr (acc @ concat (map (\<lambda>c. case c of None \<Rightarrow> [] | Some n \<Rightarrow> preorder n) cs))"
  using assms
proof (induction cs arbitrary: acc)
  case Nil
  then show ?case by simp
next
  case (Cons c cs)
  then obtain n where c: "c = Some n" and wf: "well_formed n"
    by (cases c) auto
  from Cons.prems(1)[of n acc] c wf
  have step: "count_nodes c acc = Inr (acc @ preorder n)" by simp
  have "fold (\<lambda>child acc. bind_err acc (count_nodes child)) cs (Inr (acc @ preorder n))
        = Inr ((acc @ preorder n)
               @ concat (map (\<lambda>c. case c of None \<Rightarrow> [] | Some n \<Rightarrow> preorder n) cs))"
    using Cons.prems by (intro Cons.IH) auto
  with step c show ?case by (simp add: bind_err_def)
qed

lemma count_nodes_preorder:
  "well_formed n \<Longrightarrow> count_nodes (Some n) acc = Inr (acc @ preorder n)"
proof (induction n arbitrary: acc)
  case (ASTNode i t cs a sr l)
  have "fold (\<lambda>child acc. bind_err acc (count_nodes child)) cs (Inr acc')
        = Inr (acc' @ concat (map (\<lambda>c. case c of None \<Rightarrow> [] | Some n \<Rightarrow> preorder n) cs))"
    for acc'
  proof (rule fold_count_nodes_preorder)
    show "list_all (\<lambda>c. case c of None \<Rightarrow> False | Some n \<Rightarrow> well_formed n) cs"
      using ASTNode.prems by simp
  next
    fix n acc assume "Some n \<in> set cs" "well_formed n"
    then show "count_nodes (Some n) acc = Inr (acc @ preorder n)"
      by (intro ASTNode.IH) auto
  qed
  then show ?case by simp
qed

lemma control_flow_count_preorder:
  "control_flow_count n =
     int (length (filter (\<lambda>n. node_type n \<in> set control_flow_nodes) (preorder n)))"
proof (induction n)
  case (ASTNode i t cs a sr l)
  have "sum_list (map (\<lambda>c. case c of None \<Rightarrow> 0 | Some n \<Rightarrow> control_flow_count n) cs)
        = int (length (filter (\<lambda>n. node_type n \<in> set control_flow_nodes)
                 (concat (map (\<lambda>c. case c of None \<Rightarrow> [] | Some n \<Rightarrow> preorder n) cs))))"
    using ASTNode.IH
  proof (induction cs)
    case Nil
    then show ?case by simp
  next
    case (Cons c cs)
    then show ?case by (cases c) auto
  qed
  then show ?case by (simp add: control_flow_nodes_def)
qed

text \<open>
  For a tree all of whose children are nodes, the cyclomatic-complexity estimate that
  the analysis computes (the loop of \<^verbatim>\<open>_estimate_cyclomatic_complexity\<close> over the node
  list that \<^verbatim>\<open>count_nodes\<close> collects from the root) is 1 plus the number of nodes of
  the whole tree whose type is an if-statement, a while-statement, a for-statement or a
  binary expression.
\<close>

lemma cyclomatic_estimate_of_well_formed_tree:
  "well_formed (root ust) \<Longrightarrow>
     cyclomatic_complexity ust = Inr (1 + control_flow_count (root ust))"
  by (simp add: cyclomatic_complexity_def estimate_cyclomatic_complexity_def bind_err_def
      estimate_fold_shift count_nodes_preorder control_flow_count_preorder)

lemma cyclomatic_estimate_example:
  "well_formed (root example_tree) \<and> cyclomatic_complexity example_tree = Inr 3"
proof -
  have wf: "well_formed (root example_tree)"
    by (simp add: example_tree_def)
  from cyclomatic_estimate_of_well_formed_tree [OF wf] wf show ?thesis
    by (simp add: example_tree_def)
qed

subsection \<open>Round trip of the serialized form\<close>

lemma NodeType_roundtrip: "NodeType_of_value (NodeType_value t) = Some t"
  by (cases t) (simp_all add: NodeType_of_value_def NodeType_members_def)

lemma location_roundtrip: "location_from_dict (location_to_dict loc) = Inr loc"
  by (cases "loc_file_path loc")
     (simp_all add: location_from_dict_def location_to_dict_def bind_err_def dict_get_def opt_str_def)

lemma node_fields_to_dict:
  "node_fields [(''id'', PStr i), (''type'', PStr (NodeType_value t)), (''children'', PList ds),
            (''attributes'', PDict a), (''source_range'', 
               (case sr of
                  None \<Rightarrow> PNone
                | Some r \<Rightarrow> PDict [(''start'', location_to_dict (range_start r)),
                                     (''end'', location_to_dict (range_end r))])),
            (''original_language'', opt_str l)] = Inr (i, t, a, l, sr, ds)"
  by (cases sr; cases l)
     (simp_all add: node_fields_def bind_err_def dict_get_def NodeType_roundtrip opt_str_def
        source_range_from_dict_def location_roundtrip)

lemma children_roundtrip:
  assumes "\<And>n. Some n \<in> set cs \<Longrightarrow> well_formed n \<Longrightarrow>
              (\<exists>d. to_dict n = Inr d \<and> from_dict d = Inr n)"
    and "list_all (\<lambda>c. case c of None \<Rightarrow> False | Some n \<Rightarrow> well_formed n) cs"
  shows "\<exists>ds. sequence_err (map (\<lambda>child. case child of
                               None \<Rightarrow> Inl (AttributeError ''to_dict'')
                             | Some c \<Rightarrow> to_dict c) cs) = Inr ds
              \<and> (\<exists>ns. sequence_err (map from_dict ds) = Inr ns \<and> map Some ns = cs)"
  using assms
proof (induction cs)
  case Nil
  then show ?case by simp
next
  case (Cons c cs)
  then obtain n where c: "c = Some n" and wf: "well_formed n"
    by (cases c) auto
  from Cons.prems(1)[of n] c wf obtain d where d: "to_dict n = Inr d" "from_dict d = Inr n"
    by auto
  from Cons.IH Cons.prems obtain ds ns where
    "sequence_err (map (\<lambda>child. case child of
                               None \<Rightarrow> Inl (AttributeError ''to_dict'')
                             | Some c \<Rightarrow> to_dict c) cs) = Inr ds"
    "sequence_err (map from_dict ds) = Inr ns" "map Some ns = cs"
    by auto
  with c d show ?case by simp
qed

lemma from_dict_to_dict:
  "well_formed n \<Longrightarrow> \<exists>d. to_dict n = Inr d \<and> from_dict d = Inr n"
proof (induction n)
  case (ASTNode i t cs a sr l)
  have "\<exists>ds. sequence_err (map (\<lambda>child. case child of
                               None \<Rightarrow> Inl (AttributeError ''to_dict'')
                             | Some c \<Rightarrow> to_dict c) cs) = Inr ds
              \<and> (\<exists>ns. sequence_err (map from_dict ds) = Inr ns \<and> map Some ns = cs)"
  proof (rule children_roundtrip)
    show "list_all (\<lambda>c. case c of None \<Rightarrow> False | Some n \<Rightarrow> well_formed n) cs"
      using ASTNode.prems by simp
  next
    fix n assume "Some n \<in> set cs" "well_formed n"
    then show "\<exists>d. to_dict n = Inr d \<and> from_dict d = Inr n"
      by (intro ASTNode.IH) auto
  qed
  then show ?case by (auto simp: node_fields_to_dict)
qed

lemma serialized_form_round_trip:
  "well_formed n \<Longrightarrow> bind_err (to_dict n) from_dict = Inr n"
  using from_dict_to_dict[of n] by (auto simp: bind_err_def)

lemma json_round_trip:
  "well_formed (root ust) \<Longrightarrow> to_json ust = Inr d \<Longrightarrow> from_json d = Inr ust"
  using from_dict_to_dict[of "root ust"]
  by (auto simp add: from_json_def to_json_def json_dumps_def bind_err_def dict_get_def
      split: option.splits)

subsection \<open>The tokenizer and the parser on concrete inputs\<close>

lemma tokenize_const_x: "tokenize ''const x = 5;'' =
  Some [Token ''CONST'' ''const'' 1 0, Token ''IDENTIFIER'' ''x'' 1 6,
   Token ''ASSIGN'' ''='' 1 8, Token ''NUMBER'' ''5'' 1 10,
   Token ''SEMICOLON'' '';'' 1 11]"
  by code_simp

lemmas parser_defs =
  javascript_parse_def parse_tokens_def parse_statement_def parse_variable_declaration_def
  parse_expression_def new_node_def set_attribute_def set_source_range_def
  assign_source_range_def add_child_def last_token_def int_of_digits_def digit_value_def
  opt_str_def parse_expression_statement_def bind_err_def max_str_digits_def

text \<open>
  Claim C8. Parsing \<^verbatim>\<open>const x = 5;\<close> with the hand-written JavaScript parser gives a
  program whose only child is a variable declaration with \<^verbatim>\<open>kind\<close> \<^verbatim>\<open>const\<close> and
  \<^verbatim>\<open>name\<close> \<^verbatim>\<open>x\<close>, whose only child is a literal with \<^verbatim>\<open>value\<close> the integer 5 and
  \<^verbatim>\<open>data_type\<close> \<^verbatim>\<open>integer\<close>; the tree holds no other node. This holds whatever ids
  the run draws and whatever file path is passed.
\<close>

theorem parse_const_x:
  "javascript_parse ids ''const x = 5;'' file_path =
     Some (Inr \<lparr>root =
          ASTNode (ids 0) PROGRAM
           [Some
             (ASTNode (ids 1) VARIABLE_DECLARATION
               [Some
                 (ASTNode (ids 2) LITERAL []
                   [(''value'', PInt 5), (''data_type'', PStr ''integer'')]
                   (Some
                     \<lparr>range_start =
                        \<lparr>loc_line = 1, loc_column = 10, loc_file_path = file_path\<rparr>,
                        range_end =
                          \<lparr>loc_line = 1, loc_column = 11, loc_file_path = file_path\<rparr>\<rparr>)
                   (Some ''javascript''))]
               [(''kind'', PStr ''const''), (''name'', PStr ''x'')]
               (Some
                 \<lparr>range_start =
                    \<lparr>loc_line = 1, loc_column = 0, loc_file_path = file_path\<rparr>,
                    range_end =
                      \<lparr>loc_line = 1, loc_column = 12, loc_file_path = file_path\<rparr>\<rparr>)
               (Some ''javascript''))]
           [(''language'', PStr ''javascript'')] None (Some ''javascript''),
          metadata =
            [(''language'', PStr ''javascript''), (''file_path'', opt_str file_path),
             (''parser'', PStr ''JavaScriptParser''),
             (''token_count'', PInt 5)],
          version = ''1.0''\<rparr>)"
  by (simp add: parser_defs tokenize_const_x Let_def numeral_2_eq_2)


text \<open>
  Claim C5, evaluated. The rule \<^verbatim>\<open>ASSIGN\<close> (\<^verbatim>\<open>=\<close>) stands before the rule
  \<^verbatim>\<open>EQUALITY\<close> (\<^verbatim>\<open>===|==\<close>) in the list, so the input \<^verbatim>\<open>===\<close> lexes as three
  \<^verbatim>\<open>ASSIGN\<close> tokens and not as one operator token, while \<^verbatim>\<open>=>\<close> and \<^verbatim>\<open>&&\<close> each
  lex as a single token.
\<close>

theorem tokenize_equality_operators:
  "tokenize ''==='' = Some [Token ''ASSIGN'' ''='' 1 0, Token ''ASSIGN'' ''='' 1 1, Token ''ASSIGN'' ''='' 1 2]
   \<and> tokenize ''=>'' = Some [Token ''ARROW'' ''=>'' 1 0]
   \<and> tokenize ''&&'' = Some [Token ''AND'' ''&&'' 1 0]"
  by code_simp

lemma tokenize_const_bracket: "tokenize ''const x = [1];'' =
  Some [Token ''CONST'' ''const'' 1 0, Token ''IDENTIFIER'' ''x'' 1 6,
   Token ''ASSIGN'' ''='' 1 8, Token ''LBRACKET'' ''['' 1 10, Token ''NUMBER'' ''1'' 1 11,
   Token ''RBRACKET'' '']'' 1 12, Token ''SEMICOLON'' '';'' 1 13]"
  by code_simp

text \<open>
  Claim C1, evaluated on a tree that a parser builds. For the input
  \<^verbatim>\<open>const x = [1];\<close> the JavaScript parser returns a tree whose variable declaration
  has the child list \<^verbatim>\<open>[None]\<close>: \<^verbatim>\<open>_parse_variable_declaration\<close> tests the pair that
  \<^verbatim>\<open>_parse_expression\<close> returns, which is always true, and appends its first
  component, here \<^verbatim>\<open>None\<close>. On that tree \<^verbatim>\<open>to_dict\<close> and \<^verbatim>\<open>to_json\<close> raise
  AttributeError, so there is no serialized form to read back.
\<close>

theorem parse_array_initializer_none_child:
  "\<exists>ust decl. javascript_parse ids ''const x = [1];'' file_path = Some (Inr ust)
      \<and> hd (children (root ust)) = Some decl
      \<and> node_type decl = VARIABLE_DECLARATION
      \<and> children decl = [None]
      \<and> to_dict (root ust) = Inl (AttributeError ''to_dict'')
      \<and> to_json ust = Inl (AttributeError ''to_dict'')"
  by (simp add: parser_defs tokenize_const_bracket Let_def numeral_2_eq_2 numeral_3_eq_3 to_json_def bind_err_def)


text \<open>
  Claim C7, evaluated on a tree that a parser builds. For the input
  \<^verbatim>\<open>const x = [1];\<close> the JavaScript parser returns a tree whose variable declaration
  has the child list \<^verbatim>\<open>[None]\<close>. The tree holds no if-statement, while-statement,
  for-statement or binary expression, so the claim gives the estimate 1; the analysis
  gives no estimate: \<^verbatim>\<open>count_nodes\<close> reaches the child \<^verbatim>\<open>None\<close> and raises
  AttributeError at \<^verbatim>\<open>node.children\<close>.
\<close>

theorem cyclomatic_estimate_raises_on_none_child:
  "\<exists>ust. javascript_parse ids ''const x = [1];'' file_path = Some (Inr ust)
      \<and> control_flow_count (root ust) = 0
      \<and> cyclomatic_complexity ust = Inl (AttributeError ''children'')
      \<and> cyclomatic_complexity ust \<noteq> Inr (1 + control_flow_count (root ust))"
  by (simp add: parser_defs tokenize_const_bracket Let_def numeral_2_eq_2 numeral_3_eq_3
      cyclomatic_complexity_def)

subsection \<open>Forward progress of the tokenizer\<close>

lemmas ends_plain_simps = ends.simps(1-5) ends.simps(8-9)

lemma ends_min_len: "e \<in> set (ends r line pos) \<Longrightarrow> pos + min_len r \<le> e"
proof (induction r line pos arbitrary: e rule: ends.induct)
  case (4 a b line pos)
  from "4.prems" obtain p where p: "p \<in> set (ends a line pos)" "e \<in> set (ends b line p)"
    by (auto simp del: ends.simps simp add: ends_plain_simps)
  from "4.IH"(1)[OF p(1)] "4.IH"(2)[OF p(1) p(2)] show ?case by simp
next
  case (5 a b line pos)
  then show ?case by (fastforce simp del: ends.simps simp add: ends_plain_simps)
next
  case (6 a line pos)
  have "e = pos \<or> (\<exists>p\<in>set (ends a line pos).
           pos < p \<and> p \<le> length line \<and> e \<in> set (ends (Star a) line p))"
    using "6.prems" by (subst (asm) ends.simps(6)) (auto split: if_splits simp del: ends.simps)
  then show ?case using "6.IH"(2) by (fastforce simp del: ends.simps)
next
  case (7 a line pos)
  have "e = pos \<or> (\<exists>p\<in>set (ends a line pos).
           pos < p \<and> p \<le> length line \<and> e \<in> set (ends (LazyStar a) line p))"
    using "7.prems" by (subst (asm) ends.simps(7)) (auto split: if_splits simp del: ends.simps)
  then show ?case using "7.IH"(2) by (fastforce simp del: ends.simps)
next
  case (8 a line pos)
  then show ?case by (fastforce simp del: ends.simps simp add: ends_plain_simps)
qed (auto split: if_splits simp del: ends.simps simp add: ends_plain_simps)

lemma token_patterns_nonempty: "list_all (\<lambda>(name, r). 1 \<le> min_len r) token_patterns"
  by (simp add: token_patterns_def keyword_def quoted_def Plus_def)

lemma first_match_advances:
  "list_all (\<lambda>(name, r). 1 \<le> min_len r) ps \<Longrightarrow> first_match ps line column = Some (t, e)
     \<Longrightarrow> column < e"
proof (induction ps)
  case Nil
  then show ?case by simp
next
  case (Cons p ps)
  obtain name r where p: "p = (name, r)" by (cases p)
  show ?case
  proof (cases "ends r line column")
    case Nil
    with Cons p show ?thesis by (simp add: regex_match_def)
  next
    case (Cons e' es)
    then have "e' \<in> set (ends r line column)" by simp
    from ends_min_len[OF this] Cons.prems(1) p have "column < e'" by simp
    with Cons Cons.prems(2) p show ?thesis by (simp add: regex_match_def)
  qed
qed

lemma scan_step_advances: "column < snd (scan_step line_num line column)"
proof (cases "first_match token_patterns line column")
  case None
  then show ?thesis by (simp add: scan_step_def)
next
  case (Some te)
  obtain t e where te: "te = (t, e)" by (cases te)
  from first_match_advances[OF token_patterns_nonempty] Some te have "column < e" by simp
  with Some te show ?thesis by (simp add: scan_step_def)
qed

lemma scan_line_returns: "\<exists>ts. scan_line line_num line column tokens = Some ts"
proof (induction "length line - column" arbitrary: column tokens rule: less_induct)
  case less
  show ?case
  proof (cases "column < length line")
    case False
    then show ?thesis by (subst scan_line.simps) simp
  next
    case True
    let ?step = "scan_step line_num line column"
    have "column < snd ?step" by (rule scan_step_advances)
    with True have "length line - snd ?step < length line - column" by arith
    from less[OF this] obtain ts where
      "scan_line line_num line (snd ?step) (tokens @ fst ?step) = Some ts" by blast
    with True show ?thesis by (subst scan_line.simps) (simp add: Let_def)
  qed
qed

lemma tokenize_lines_returns: "\<exists>ts. tokenize_lines line_num lines tokens = Some ts"
proof (induction lines arbitrary: line_num tokens)
  case Nil
  then show ?case by simp
next
  case (Cons l ls)
  from scan_line_returns obtain ts where "scan_line line_num l 0 tokens = Some ts" by blast
  with Cons show ?case by simp
qed

text \<open>
  Claim C4. Tokenizing terminates and never raises. At every scan position either a rule
  matches, and then the match is not empty and the position moves to its end, or no
  rule matches, and then the tokenizer appends no token and moves on by exactly one
  character; so every round of the loop moves the position forward, and for every
  source text the tokenizer returns a token list.
\<close>

theorem tokenizer_progress_and_termination:
  "(case first_match token_patterns line column of
      Some (token_type, e) \<Rightarrow> column < e \<and> snd (scan_step line_num line column) = e
    | None \<Rightarrow> scan_step line_num line column = ([], column + 1))
   \<and> column < snd (scan_step line_num line column)
   \<and> (\<exists>tokens. tokenize source_code = Some tokens)"
proof -
  have a: "case first_match token_patterns line column of
      Some (token_type, e) \<Rightarrow> column < e \<and> snd (scan_step line_num line column) = e
    | None \<Rightarrow> scan_step line_num line column = ([], column + 1)"
    using first_match_advances[OF token_patterns_nonempty, of line column]
    by (auto simp: scan_step_def split: option.splits)
  show ?thesis
    using a scan_step_advances tokenize_lines_returns by (simp add: tokenize_def)
qed


subsection \<open>The registry invariant\<close>

lemma fst_dict_set: "fst ` set (dict_set d k v) = insert k (fst ` set d)"
  by (induction d k v rule: dict_set.induct) auto

lemma snd_dict_set: "snd ` set (dict_set d k v) \<subseteq> insert v (snd ` set d)"
  by (induction d k v rule: dict_set.induct) auto

lemma snd_fold_dict_set:
  "snd ` set (fold (\<lambda>ext m. dict_set m ext l) exts d) \<subseteq> insert l (snd ` set d)"
proof (induction exts arbitrary: d)
  case Nil
  then show ?case by auto
next
  case (Cons e es)
  from Cons.IH[of "dict_set d e l"] snd_dict_set[of d e l] show ?case by auto
qed

lemma register_parser_preserves_invariant:
  assumes "registry_invariant reg"
  shows "registry_invariant (register_parser reg parser)"
proof -
  have "snd ` set (extension_map (register_parser reg parser))
          \<subseteq> insert (language parser) (snd ` set (extension_map reg))"
    by (simp add: register_parser_def snd_fold_dict_set)
  moreover have "snd ` set (extension_map reg) \<subseteq> fst ` set (parsers reg)"
    using assms by (auto simp: registry_invariant_def list_all_iff list_supported_languages_def)
  moreover have "fst ` set (parsers (register_parser reg parser))
                   = insert (language parser) (fst ` set (parsers reg))"
    by (simp add: register_parser_def fst_dict_set)
  ultimately have "snd ` set (extension_map (register_parser reg parser))
                     \<subseteq> fst ` set (parsers (register_parser reg parser))"
    by blast
  then show ?thesis
    by (force simp: registry_invariant_def list_all_iff list_supported_languages_def)
qed

lemma invariant_lookup:
  assumes "registry_invariant reg"
    and "map_of (extension_map reg) (lower ext) = Some lang" and "lang \<noteq> []"
  shows "get_parser_by_extension reg ext \<noteq> None"
proof -
  from assms(2) have "(lower ext, lang) \<in> set (extension_map reg)" by (rule map_of_SomeD)
  with assms(1) have "lang \<in> fst ` set (parsers reg)"
    by (auto simp: registry_invariant_def list_all_iff list_supported_languages_def)
  then have "map_of (parsers reg) lang \<noteq> None"
    by (simp add: map_of_eq_None_iff)
  with assms(2,3) show ?thesis by (simp add: get_parser_by_extension_def)
qed

lemma lower_TS: "lower ''.TS'' = ''.ts''"
  by code_simp

lemma lower_x: "lower ''.x'' = ''.x''"
  by code_simp

text \<open>
  Claim C9, as amended. Every \<^verbatim>\<open>register_parser\<close> call preserves the invariant that
  each language name stored as a value of the extension map is a key of the parser map;
  consequently, for every extension whose lower-cased form the extension map sends to
  a non-empty language name, \<^verbatim>\<open>get_parser_by_extension\<close> returns a parser. For every
  extension whose lower-cased form the extension map sends to the empty language name,
  it returns \<^verbatim>\<open>None\<close>.
\<close>

theorem registry_invariant_preserved:
  "registry_invariant reg \<Longrightarrow>
     registry_invariant (register_parser reg parser)
     \<and> (\<forall>ext lang. map_of (extension_map (register_parser reg parser)) (lower ext) = Some lang
            \<and> lang \<noteq> [] \<longrightarrow> get_parser_by_extension (register_parser reg parser) ext \<noteq> None)
     \<and> (\<forall>ext. map_of (extension_map (register_parser reg parser)) (lower ext) = Some []
            \<longrightarrow> get_parser_by_extension (register_parser reg parser) ext = None)"
proof -
  assume inv: "registry_invariant reg"
  have empty_name: "get_parser_by_extension r ext = None"
    if "map_of (extension_map r) (lower ext) = Some []" for r ext
    using that by (simp add: get_parser_by_extension_def)
  from register_parser_preserves_invariant[OF inv] invariant_lookup empty_name
  show ?thesis by blast
qed

theorem registry_invariant_witness:
  "registry_invariant empty_registry
   \<and> registry_invariant (register_parser empty_registry (JavaScriptParser (\<lambda>n. [])))
   \<and> get_parser_by_extension (register_parser empty_registry (JavaScriptParser (\<lambda>n. []))) ''.TS''
       \<noteq> None
   \<and> map_of (extension_map (register_parser empty_registry nameless_parser)) (lower ''.x'')
       = Some []
   \<and> get_parser_by_extension (register_parser empty_registry nameless_parser) ''.x'' = None"
proof -
  have inv: "registry_invariant empty_registry"
    by (simp add: registry_invariant_def empty_registry_def)
  have look: "map_of (extension_map (register_parser empty_registry (JavaScriptParser (\<lambda>n. []))))
                (lower ''.TS'') = Some ''javascript'' \<and> ''javascript'' \<noteq> []"
    by (simp add: register_parser_def empty_registry_def JavaScriptParser_def lower_TS)
  have nameless:
    "map_of (extension_map (register_parser empty_registry nameless_parser)) (lower ''.x'')
       = Some []"
    by (simp add: register_parser_def empty_registry_def nameless_parser_def lower_x)
  from registry_invariant_preserved [OF inv, of "JavaScriptParser (\<lambda>n. [])"]
    registry_invariant_preserved [OF inv, of nameless_parser] look nameless inv
  show ?thesis by blast
qed

text \<open>
  Claim C9 as stated fails for a parser registered under the empty language name: its
  extension is present in the extension map and the invariant holds, but the test
  \<^verbatim>\<open>if language:\<close> of \<^verbatim>\<open>get_parser_by_extension\<close> takes the empty name for no name
  and the lookup returns \<^verbatim>\<open>None\<close>.
\<close>

theorem empty_language_lookup_counterexample:
  "registry_invariant (register_parser empty_registry nameless_parser)
   \<and> map_of (extension_map (register_parser empty_registry nameless_parser)) (lower ''.x'')
       = Some []
   \<and> get_parser_by_extension (register_parser empty_registry nameless_parser) ''.x'' = None"
  by (simp add: register_parser_def empty_registry_def nameless_parser_def lower_x
      get_parser_by_extension_def registry_invariant_def list_supported_languages_def)


subsection \<open>Dispatch by \<^verbatim>\<open>parse_code\<close>\<close>

lemma splitext_file_xyz: "splitext ''file.xyz'' = (''file'', ''.xyz'')"
  by code_simp

lemma splitext_a_ts: "splitext ''a.ts'' = (''a'', ''.ts'')"
  by code_simp

lemma lower_xyz: "lower ''.xyz'' = ''.xyz''"
  by code_simp

lemma lower_ts: "lower ''.ts'' = ''.ts''"
  by code_simp

lemmas registry_defs = javascript_registry_def register_parser_def empty_registry_def
  JavaScriptParser_def get_parser_def get_parser_by_extension_def

lemma javascript_parse_returns:
  "\<exists>r. javascript_parse ids source_code file_path = Some r"
proof -
  from tokenize_lines_returns obtain ts where "tokenize source_code = Some ts"
    unfolding tokenize_def by blast
  then show ?thesis by (simp add: javascript_parse_def split: sum.splits)
qed

lemma javascript_parse_const_x_tree:
  "\<exists>ust. javascript_parse ids ''const x = 5;'' file_path = Some (Inr ust)"
  by (simp add: parser_defs tokenize_const_x Let_def)

text \<open>
  Claim C2, as amended. \<^verbatim>\<open>parse_code\<close> looks the explicit language argument up when
  one is given (not \<^verbatim>\<open>None\<close>, not empty), and only otherwise the extension of
  the file path; it raises ValueError when the lookup it makes finds no parser, in
  particular whenever neither the language nor the extension resolves to a registered
  parser, and otherwise it returns what the found parser's \<^verbatim>\<open>parse\<close> returns.
\<close>

theorem parse_code_dispatch:
  "(resolve_in_priority_order reg lang file_path = None \<longrightarrow>
      parse_code reg source_code lang file_path
        = Some (Inl (ValueError (no_parser_message lang file_path))))
   \<and> (lang \<noteq> None \<and> lang \<noteq> Some [] \<longrightarrow>
        parse_code reg source_code lang file_path
          = (case get_parser reg (format_opt lang) of
               None \<Rightarrow> Some (Inl (ValueError (no_parser_message lang file_path)))
             | Some parser \<Rightarrow> parse parser source_code file_path))
   \<and> ((lang = None \<or> lang = Some []) \<and> file_path \<noteq> None \<and> file_path \<noteq> Some [] \<longrightarrow>
        parse_code reg source_code lang file_path
          = (case get_parser_by_extension reg (snd (splitext (format_opt file_path))) of
               None \<Rightarrow> Some (Inl (ValueError (no_parser_message lang file_path)))
             | Some parser \<Rightarrow> parse parser source_code file_path))"
proof (intro conjI impI)
  assume r: "resolve_in_priority_order reg lang file_path = None"
  have "select_parser reg lang file_path = None"
  proof (cases lang)
    case None
    with r show ?thesis
      by (cases file_path) (auto simp: select_parser_def resolve_in_priority_order_def format_opt_def)
  next
    case (Some l)
    with r have g: "get_parser reg l = None"
      by (auto simp: resolve_in_priority_order_def split: option.splits)
    from r Some g have e: "file_path = None \<or> (\<exists>p. file_path = Some p
          \<and> get_parser_by_extension reg (snd (splitext p)) = None)"
      by (cases file_path) (auto simp: resolve_in_priority_order_def)
    from Some g e show ?thesis
      by (auto simp: select_parser_def format_opt_def)
  qed
  then show "parse_code reg source_code lang file_path
        = Some (Inl (ValueError (no_parser_message lang file_path)))"
    by (simp add: parse_code_def)
next
  assume "lang \<noteq> None \<and> lang \<noteq> Some []"
  then show "parse_code reg source_code lang file_path
          = (case get_parser reg (format_opt lang) of
               None \<Rightarrow> Some (Inl (ValueError (no_parser_message lang file_path)))
             | Some parser \<Rightarrow> parse parser source_code file_path)"
    by (simp add: parse_code_def select_parser_def)
next
  assume "(lang = None \<or> lang = Some []) \<and> file_path \<noteq> None \<and> file_path \<noteq> Some []"
  then show "parse_code reg source_code lang file_path
          = (case get_parser_by_extension reg (snd (splitext (format_opt file_path))) of
               None \<Rightarrow> Some (Inl (ValueError (no_parser_message lang file_path)))
             | Some parser \<Rightarrow> parse parser source_code file_path)"
    by (auto simp add: parse_code_def select_parser_def)
qed

theorem parse_code_dispatch_witness:
  "resolve_in_priority_order javascript_registry None (Some ''file.xyz'') = None
   \<and> parse_code javascript_registry ''const x = 5;'' None (Some ''file.xyz'')
       = Some (Inl (ValueError (no_parser_message None (Some ''file.xyz''))))
   \<and> parse_code javascript_registry ''const x = 5;'' (Some ''javascript'') None
       = javascript_parse (\<lambda>n. []) ''const x = 5;'' None
   \<and> parse_code javascript_registry ''const x = 5;'' None (Some ''a.ts'')
       = javascript_parse (\<lambda>n. []) ''const x = 5;'' (Some ''a.ts'')"
proof -
  have r: "resolve_in_priority_order javascript_registry None (Some ''file.xyz'') = None"
    by (simp add: resolve_in_priority_order_def registry_defs splitext_file_xyz lower_xyz)
  have g: "get_parser javascript_registry (format_opt (Some ''javascript''))
             = Some (JavaScriptParser (\<lambda>n. []))"
    by (simp add: registry_defs format_opt_def)
  have x: "get_parser_by_extension javascript_registry (snd (splitext (format_opt (Some ''a.ts''))))
             = Some (JavaScriptParser (\<lambda>n. []))"
    by (simp add: registry_defs format_opt_def splitext_a_ts lower_ts)
  from parse_code_dispatch [of javascript_registry None "Some ''file.xyz''" "''const x = 5;''"]
    parse_code_dispatch [of javascript_registry "Some ''javascript''" None "''const x = 5;''"]
    parse_code_dispatch [of javascript_registry None "Some ''a.ts''" "''const x = 5;''"]
    r g x
  show ?thesis by (simp add: JavaScriptParser_def)
qed

text \<open>
  Claim C2 as stated fails when the language argument names no registered parser and
  the extension does: with the JavaScript parser registered, the call with language
  \<^verbatim>\<open>typescript\<close> and path \<^verbatim>\<open>a.ts\<close> raises, although the extension \<^verbatim>\<open>.ts\<close> resolves
  to the JavaScript parser, whose \<^verbatim>\<open>parse\<close> returns a tree.
\<close>

theorem unregistered_language_counterexample:
  "resolve_in_priority_order javascript_registry (Some ''typescript'') (Some ''a.ts'')
     = Some (JavaScriptParser (\<lambda>n. []))
   \<and> parse_code javascript_registry ''const x = 5;'' (Some ''typescript'') (Some ''a.ts'')
       = Some (Inl (ValueError (no_parser_message (Some ''typescript'') (Some ''a.ts''))))
   \<and> parse (JavaScriptParser (\<lambda>n. [])) ''const x = 5;'' (Some ''a.ts'')
       \<noteq> Some (Inl (ValueError (no_parser_message (Some ''typescript'') (Some ''a.ts''))))"
proof -
  have a: "resolve_in_priority_order javascript_registry (Some ''typescript'') (Some ''a.ts'')
     = Some (JavaScriptParser (\<lambda>n. []))"
    by (simp add: resolve_in_priority_order_def registry_defs splitext_a_ts lower_ts)
  have b: "parse_code javascript_registry ''const x = 5;'' (Some ''typescript'') (Some ''a.ts'')
       = Some (Inl (ValueError (no_parser_message (Some ''typescript'') (Some ''a.ts''))))"
    by (simp add: parse_code_def select_parser_def format_opt_def registry_defs)
  from javascript_parse_const_x_tree[of "\<lambda>n. []" "Some ''a.ts''"]
  have c: "parse (JavaScriptParser (\<lambda>n. [])) ''const x = 5;'' (Some ''a.ts'')
       \<noteq> Some (Inl (ValueError (no_parser_message (Some ''typescript'') (Some ''a.ts''))))"
    by (auto simp: JavaScriptParser_def)
  from a b c show ?thesis by blast
qed


subsection \<open>The Python adapter\<close>

text \<open>
  Claim C10. For a Python boolean constant (\<^verbatim>\<open>True\<close> or \<^verbatim>\<open>False\<close>) the adapter builds a
  literal node whose attribute \<^verbatim>\<open>data_type\<close> is \<^verbatim>\<open>integer\<close>, not \<^verbatim>\<open>boolean\<close>: a
  boolean passes the integer test as well as the boolean test, and
  \<^verbatim>\<open>_get_python_type\<close> makes the integer test first.
\<close>

theorem boolean_constant_is_integer:
  "isinstance_int (PBool b) \<and> isinstance_bool (PBool b)
   \<and> get_python_type (PBool b) = ''integer''
   \<and> convert_ast_node ids n
         (PyAST ''Constant'' [(''value'', FValue (PBool b)), (''kind'', FValue PNone)] p) file_path
       = Inr (ASTNode (ids n) LITERAL []
                [(''value'', PBool b), (''data_type'', PStr ''integer'')]
                (map_option (\<lambda>q. position_range q file_path) p) (Some ''python''),
              n + 1)"
  by (cases p)
     (simp_all add: get_python_type_def get_asu_node_type_def is_Num_def is_Str_def is_Bytes_def
        is_NameConstant_def constant_value_def process_node_attributes_def field_of_def
        bind_err_def set_attribute_def assign_source_range_def iter_child_nodes_def)






subsection \<open>Determinism of parsing and of language detection\<close>

lemma strip_set_attribute [simp]:
  "strip_ids (set_attribute node k v) = set_attribute (strip_ids node) k v"
  by (cases node) (simp add: set_attribute_def)

lemma strip_add_child [simp]:
  "strip_ids (add_child node c) = add_child (strip_ids node) (map_option strip_ids c)"
  by (cases node) (simp add: add_child_def)

lemma strip_assign_source_range [simp]:
  "strip_ids (assign_source_range node sr) = assign_source_range (strip_ids node) sr"
  by (cases node) (simp add: assign_source_range_def)

lemma strip_set_source_range [simp]:
  "strip_ids (set_source_range node a b fp) = set_source_range (strip_ids node) a b fp"
  by (simp add: set_source_range_def)

lemma strip_new_node [simp]: "strip_ids (new_node ids n t) = new_node (\<lambda>k. []) 0 t"
  by (simp add: new_node_def)


lemmas erase_simps = Let_def split_def erase_step_def map_sum.simps fst_conv snd_conv option.map
  strip_set_source_range strip_new_node strip_set_attribute strip_add_child
  if_distrib[where f=strip_ids] if_distrib[where f=fst] if_distrib[where f=snd]
  if_distrib[where f="map_option strip_ids"] if_distrib[where f=Some]
  if_distrib[where f="map_sum id (\<lambda>x. (map_option strip_ids (fst (fst x)), snd (fst x)))"]
  if_distrib[where f="\<lambda>x. set_source_range x a b c" for a b c]
  if_distrib[where f="\<lambda>x. add_child x c" for c]
  id_apply simp_thms


lemma erase_parse_expression:
  "erase_step (parse_expression ids n tokens start fp)
     = erase_step (parse_expression (\<lambda>k. []) 0 tokens start fp)"
  by (simp only: parse_expression_def erase_simps)

































end
